theory Spec2Isabelle
  imports Main "HOL-Library.AList"
begin

section \<open>The tasks manager of \<^verbatim>\<open>optimum/exporters/tasks.py\<close>\<close>

text \<open>
  A shallow embedding of the registry and resolution functions of the class
  \<^verbatim>\<open>TasksManager\<close>.  Python strings are \<^typ>\<open>string\<close>, Python dictionaries are
  association lists in insertion order (\<^const>\<open>map_of\<close> reads a key,
  \<^const>\<open>AList.update\<close> is the assignment \<^verbatim>\<open>d[k] = v\<close>: it overwrites in place or
  appends at the end), exceptions are values of the type \<open>error\<close>, and the
  class-level tables that \<^verbatim>\<open>create_register\<close> mutates are passed explicitly.
\<close>

subsection \<open>Python string operations\<close>

text \<open>\<^verbatim>\<open>s.startswith(p)\<close> and \<^verbatim>\<open>s.endswith(q)\<close>.\<close>

definition startswith :: "string \<Rightarrow> string \<Rightarrow> bool" where
  "startswith s p = (take (length p) s = p)"

definition endswith :: "string \<Rightarrow> string \<Rightarrow> bool" where
  "endswith s q = (length q \<le> length s \<and> drop (length s - length q) s = q)"

text \<open>\<^verbatim>\<open>sub in s\<close> for two strings: \<open>sub\<close> occurs in \<open>s\<close> as a contiguous block.\<close>

fun contains :: "string \<Rightarrow> string \<Rightarrow> bool" where
  "contains sub [] = (sub = [])"
| "contains sub (c # cs) = (startswith (c # cs) sub \<or> contains sub cs)"

text \<open>
  \<^verbatim>\<open>s.replace(old, new)\<close>: every occurrence of \<open>old\<close>, found from the left and not
  overlapping, becomes \<open>new\<close>.  For an empty \<open>old\<close> Python puts \<open>new\<close> before every
  character and at the end.
\<close>

function replace :: "string \<Rightarrow> string \<Rightarrow> string \<Rightarrow> string" where
  "replace old new s =
     (if s = [] then (if old = [] then new else [])
      else if old = [] then new @ hd s # replace old new (tl s)
      else if startswith s old then new @ replace old new (drop (length old) s)
      else hd s # replace old new (tl s))"
  by pat_completeness auto
termination
  by (relation "measure (\<lambda>(old, new, s). length s)") auto

declare replace.simps [simp del]

text \<open>
  \<^verbatim>\<open>s.lower()\<close> on the code points below 256: the letters A to Z and the capital
  letters of Latin-1 (192 to 222 without the multiplication sign 215) move up by 32.
\<close>

definition lower_char :: "char \<Rightarrow> char" where
  "lower_char c =
     (let n = (of_char c :: nat)
      in if (65 \<le> n \<and> n \<le> 90) \<or> (192 \<le> n \<and> n \<le> 222 \<and> n \<noteq> 215)
         then char_of (n + 32) else c)"

definition lower :: "string \<Rightarrow> string" where
  "lower s = map lower_char s"

text \<open>\<^verbatim>\<open>sep.join(xs)\<close>.\<close>

fun join :: "string \<Rightarrow> string list \<Rightarrow> string" where
  "join sep [] = []"
| "join sep [x] = x"
| "join sep (x # y # ys) = x @ sep @ join sep (y # ys)"

subsection \<open>Exceptions\<close>

text \<open>
  One constructor for each exception class the module raises, carrying the message;
  \<open>ExternalError\<close> stands for whatever a collaborator outside the module raises
  (the hub client, the configuration parser).
\<close>

datatype error =
    ValueError string
  | KeyError string
  | EnvironmentError string
  | RequestsConnectionError string
  | FileNotFoundError string
  | NameError string
  | ExternalError string

subsection \<open>Task synonyms\<close>

definition SYNONYM_TASK_MAP :: "(string \<times> string) list" where
  "SYNONYM_TASK_MAP =
    [(''audio-ctc'', ''automatic-speech-recognition''),
     (''causal-lm'', ''text-generation''),
     (''causal-lm-with-past'', ''text-generation-with-past''),
     (''default'', ''feature-extraction''),
     (''default-with-past'', ''feature-extraction-with-past''),
     (''masked-lm'', ''fill-mask''),
     (''mask-generation'', ''feature-extraction''),
     (''sentence-similarity'', ''feature-extraction''),
     (''seq2seq-lm'', ''text2text-generation''),
     (''seq2seq-lm-with-past'', ''text2text-generation-with-past''),
     (''sequence-classification'', ''text-classification''),
     (''speech2seq-lm'', ''automatic-speech-recognition''),
     (''speech2seq-lm-with-past'', ''automatic-speech-recognition-with-past''),
     (''summarization'', ''text2text-generation''),
     (''text-to-speech'', ''text-to-audio''),
     (''translation'', ''text2text-generation''),
     (''vision2seq-lm'', ''image-to-text''),
     (''zero-shot-classification'', ''text-classification''),
     (''image-feature-extraction'', ''feature-extraction'')]"

definition map_from_synonym :: "string \<Rightarrow> string" where
  "map_from_synonym task =
     (case map_of SYNONYM_TASK_MAP task of Some t \<Rightarrow> t | None \<Rightarrow> task)"

subsection \<open>The runtime environment\<close>

text \<open>
  What the module asks of the installed packages: \<^verbatim>\<open>is_torch_available()\<close>,
  \<^verbatim>\<open>is_tf_available()\<close>, \<^verbatim>\<open>is_onnx_available()\<close>, and the configuration classes that
  \<^verbatim>\<open>getattr(importlib.import_module(f"optimum.exporters.{backend}.model_configs"), name)\<close>
  finds (the modules \<^verbatim>\<open>model_configs\<close> are outside this file: the lookup is a field of
  the environment).  The answers depend on the installation only and are taken to be
  the same at every call within one process.
\<close>

record config_cls =
  cls_name :: string
  SUPPORTS_PAST :: bool

record environment =
  torch_available :: bool
  tf_available :: bool
  onnx_available :: bool
  model_configs :: "string \<Rightarrow> string \<Rightarrow> error + config_cls"

definition is_backend_available :: "environment \<Rightarrow> string \<Rightarrow> error + bool" where
  "is_backend_available env backend =
     (case map_of [(''onnx'', onnx_available env), (''tflite'', tf_available env)] backend of
        Some b \<Rightarrow> Inr b
      | None \<Rightarrow> Inl (KeyError backend))"

subsection \<open>Configuration constructors\<close>

text \<open>
  A constructor is the object \<^verbatim>\<open>functools.partial(config_cls, **keywords)\<close>: the class
  and the keyword arguments fixed so far (the attributes \<^verbatim>\<open>func\<close> and \<^verbatim>\<open>keywords\<close> of
  the partial object; the field is \<open>kwds\<close> here).  \<open>partial\<close> of a partial object keeps the
  class and merges the keywords, the later ones winning.
\<close>

datatype pyval = PyNone | PyBool bool | PyInt int | PyStr string

record constructor =
  func :: config_cls
  kwds :: "(string \<times> pyval) list"

definition dict_merge :: "('k \<times> 'v) list \<Rightarrow> ('k \<times> 'v) list \<Rightarrow> ('k \<times> 'v) list" where
  "dict_merge a b = foldl (\<lambda>acc kv. AList.update (fst kv) (snd kv) acc) a b"

definition partial :: "constructor \<Rightarrow> (string \<times> pyval) list \<Rightarrow> constructor" where
  "partial c kwargs = c\<lparr>kwds := dict_merge (kwds c) kwargs\<rparr>"

definition quote :: string where
  "quote = [CHR 0x27]"

definition dquote :: string where
  "dquote = [CHR 0x22]"

text \<open>
  \<^verbatim>\<open>repr\<close> of a string without quotes, backslashes or control characters, of a list
  of such strings, and of a class.
\<close>

definition py_repr :: "string \<Rightarrow> string" where
  "py_repr s = quote @ s @ quote"

definition py_list_repr :: "string list \<Rightarrow> string" where
  "py_list_repr xs = ''['' @ join '', '' (map py_repr xs) @ '']''"

definition cls_repr :: "config_cls \<Rightarrow> string" where
  "cls_repr c = ''<class '' @ quote @ cls_name c @ quote @ ''>''"

definition make_backend_config_constructor_for_task ::
  "config_cls \<Rightarrow> string \<Rightarrow> error + constructor" where
  "make_backend_config_constructor_for_task config_cls task =
     (if contains ''-with-past'' task then
        (if \<not> SUPPORTS_PAST config_cls
         then Inl (ValueError (cls_repr config_cls @ '' does not support tasks with past.''))
         else Inr \<lparr>func = config_cls,
                   kwds = [(''use_past'', PyBool True),
                               (''task'', PyStr (replace ''-with-past'' [] task))]\<rparr>)
      else Inr \<lparr>func = config_cls, kwds = [(''task'', PyStr task)]\<rparr>)"

subsection \<open>The tables of supported model types\<close>

type_synonym task_map = "(string \<times> constructor) list"
type_synonym backend_map = "(string \<times> task_map) list"
type_synonym model_type_table = "(string \<times> backend_map) list"

text \<open>
  A supported task is a name, or a name with the backends that support it
  (\<^verbatim>\<open>("multiple-choice", ("onnx",))\<close>).
\<close>

datatype supported_task = Task string | TaskFor string "string list"

fun tasks_of_backend ::
  "config_cls \<Rightarrow> string \<Rightarrow> supported_task list \<Rightarrow> task_map \<Rightarrow> error + task_map" where
  "tasks_of_backend config_cls backend [] acc = Inr acc"
| "tasks_of_backend config_cls backend (Task task # ts) acc =
     (case make_backend_config_constructor_for_task config_cls task of
        Inl e \<Rightarrow> Inl e
      | Inr c \<Rightarrow> tasks_of_backend config_cls backend ts (AList.update task c acc))"
| "tasks_of_backend config_cls backend (TaskFor task supported_backends_for_task # ts) acc =
     (if backend \<notin> set supported_backends_for_task
      then tasks_of_backend config_cls backend ts acc
      else (case make_backend_config_constructor_for_task config_cls task of
              Inl e \<Rightarrow> Inl e
            | Inr c \<Rightarrow> tasks_of_backend config_cls backend ts (AList.update task c acc)))"

fun supported_tasks_mapping_loop ::
  "environment \<Rightarrow> supported_task list \<Rightarrow> (string \<times> string) list \<Rightarrow> backend_map
     \<Rightarrow> error + backend_map" where
  "supported_tasks_mapping_loop env supported_tasks [] mapping = Inr mapping"
| "supported_tasks_mapping_loop env supported_tasks ((backend, config_cls_name) # exporters) mapping =
     (case is_backend_available env backend of
        Inl e \<Rightarrow> Inl e
      | Inr False \<Rightarrow> supported_tasks_mapping_loop env supported_tasks exporters mapping
      | Inr True \<Rightarrow>
          (case model_configs env backend config_cls_name of
             Inl e \<Rightarrow> Inl e
           | Inr config_cls \<Rightarrow>
               (case tasks_of_backend config_cls backend supported_tasks [] of
                  Inl e \<Rightarrow> Inl e
                | Inr m \<Rightarrow>
                    supported_tasks_mapping_loop env supported_tasks exporters
                      (AList.update backend m mapping))))"

definition supported_tasks_mapping ::
  "environment \<Rightarrow> supported_task list \<Rightarrow> (string \<times> string) list \<Rightarrow> error + backend_map" where
  "supported_tasks_mapping env supported_tasks exporters =
     supported_tasks_mapping_loop env supported_tasks exporters []"

definition MODEL_TYPE_FOR_DEFAULT_CONFIG :: "(string \<times> string) list" where
  "MODEL_TYPE_FOR_DEFAULT_CONFIG = [(''timm'', ''default-timm-config'')]"

text \<open>
  The value that the class body gives \<^verbatim>\<open>_TIMM_SUPPORTED_MODEL_TYPE\<close>, before any
  registration.
\<close>

definition initial_TIMM_SUPPORTED_MODEL_TYPE :: "environment \<Rightarrow> error + model_type_table" where
  "initial_TIMM_SUPPORTED_MODEL_TYPE env =
     (case supported_tasks_mapping env [Task ''image-classification'']
             [(''onnx'', ''TimmDefaultOnnxConfig'')] of
        Inl e \<Rightarrow> Inl e
      | Inr m \<Rightarrow> Inr [(''default-timm-config'', m)])"

text \<open>
  The four class-level tables, which \<^verbatim>\<open>create_register\<close> mutates in place.
  \<^verbatim>\<open>_LIBRARY_TO_SUPPORTED_MODEL_TYPES\<close> holds references to these four dictionaries
  under four fixed keys, so it is a view of the same state.
\<close>

record registry =
  DIFFUSERS_SUPPORTED_MODEL_TYPE :: model_type_table
  SENTENCE_TRANSFORMERS_SUPPORTED_MODEL_TYPE :: model_type_table
  TIMM_SUPPORTED_MODEL_TYPE :: model_type_table
  SUPPORTED_MODEL_TYPE :: model_type_table

definition LIBRARY_TO_SUPPORTED_MODEL_TYPES :: "registry \<Rightarrow> (string \<times> model_type_table) list" where
  "LIBRARY_TO_SUPPORTED_MODEL_TYPES reg =
     [(''diffusers'', DIFFUSERS_SUPPORTED_MODEL_TYPE reg),
      (''sentence_transformers'', SENTENCE_TRANSFORMERS_SUPPORTED_MODEL_TYPE reg),
      (''timm'', TIMM_SUPPORTED_MODEL_TYPE reg),
      (''transformers'', SUPPORTED_MODEL_TYPE reg)]"

text \<open>The state after the dictionary of one library has been mutated into \<open>tbl\<close>.\<close>

definition store_library :: "string \<Rightarrow> model_type_table \<Rightarrow> registry \<Rightarrow> registry" where
  "store_library library_name tbl reg =
     (if library_name = ''diffusers'' then reg\<lparr>DIFFUSERS_SUPPORTED_MODEL_TYPE := tbl\<rparr>
      else if library_name = ''sentence_transformers''
        then reg\<lparr>SENTENCE_TRANSFORMERS_SUPPORTED_MODEL_TYPE := tbl\<rparr>
      else if library_name = ''timm'' then reg\<lparr>TIMM_SUPPORTED_MODEL_TYPE := tbl\<rparr>
      else if library_name = ''transformers'' then reg\<lparr>SUPPORTED_MODEL_TYPE := tbl\<rparr>
      else reg)"

subsection \<open>The task vocabulary\<close>

text \<open>
  A task maps to the name of one loader class or to a tuple of names.  The tables
  for PyTorch are filled only under \<^verbatim>\<open>if is_torch_available():\<close>, the table for
  TensorFlow only under \<^verbatim>\<open>if is_tf_available():\<close>; otherwise they stay \<^verbatim>\<open>{}\<close>.
\<close>

datatype model_loaders = Loader string | Loaders "string list"

definition TRANSFORMERS_TASKS_TO_MODEL_LOADERS :: "environment \<Rightarrow> (string \<times> model_loaders) list" where
  "TRANSFORMERS_TASKS_TO_MODEL_LOADERS env =
    (if torch_available env then
      [(''audio-classification'', Loader ''AutoModelForAudioClassification''),
       (''audio-frame-classification'', Loader ''AutoModelForAudioFrameClassification''),
       (''audio-xvector'', Loader ''AutoModelForAudioXVector''),
       (''automatic-speech-recognition'', Loaders [''AutoModelForSpeechSeq2Seq'', ''AutoModelForCTC'']),
       (''conversational'', Loaders [''AutoModelForCausalLM'', ''AutoModelForSeq2SeqLM'']),
       (''depth-estimation'', Loader ''AutoModelForDepthEstimation''),
       (''feature-extraction'', Loader ''AutoModel''),
       (''fill-mask'', Loader ''AutoModelForMaskedLM''),
       (''image-classification'', Loader ''AutoModelForImageClassification''),
       (''image-segmentation'',
          Loaders [''AutoModelForImageSegmentation'', ''AutoModelForSemanticSegmentation'']),
       (''image-to-image'', Loader ''AutoModelForImageToImage''),
       (''image-to-text'', Loader ''AutoModelForVision2Seq''),
       (''mask-generation'', Loader ''AutoModel''),
       (''masked-im'', Loader ''AutoModelForMaskedImageModeling''),
       (''multiple-choice'', Loader ''AutoModelForMultipleChoice''),
       (''object-detection'', Loader ''AutoModelForObjectDetection''),
       (''question-answering'', Loader ''AutoModelForQuestionAnswering''),
       (''semantic-segmentation'', Loader ''AutoModelForSemanticSegmentation''),
       (''text-to-audio'',
          Loaders [''AutoModelForTextToSpectrogram'', ''AutoModelForTextToWaveform'']),
       (''text-generation'', Loader ''AutoModelForCausalLM''),
       (''text2text-generation'', Loader ''AutoModelForSeq2SeqLM''),
       (''text-classification'', Loader ''AutoModelForSequenceClassification''),
       (''token-classification'', Loader ''AutoModelForTokenClassification''),
       (''zero-shot-image-classification'', Loader ''AutoModelForZeroShotImageClassification''),
       (''zero-shot-object-detection'', Loader ''AutoModelForZeroShotObjectDetection'')]
     else [])"

definition DIFFUSERS_TASKS_TO_MODEL_LOADERS :: "environment \<Rightarrow> (string \<times> model_loaders) list" where
  "DIFFUSERS_TASKS_TO_MODEL_LOADERS env =
    (if torch_available env then
      [(''stable-diffusion'', Loader ''StableDiffusionPipeline''),
       (''stable-diffusion-xl'', Loader ''StableDiffusionXLImg2ImgPipeline'')]
     else [])"

definition TIMM_TASKS_TO_MODEL_LOADERS :: "environment \<Rightarrow> (string \<times> model_loaders) list" where
  "TIMM_TASKS_TO_MODEL_LOADERS env =
    (if torch_available env then [(''image-classification'', Loader ''create_model'')] else [])"

text \<open>
  \<^verbatim>\<open>_SENTENCE_TRANSFORMERS_TASKS_TO_MODEL_LOADERS\<close> has no empty default: the name is
  bound only under \<^verbatim>\<open>if is_torch_available():\<close>.  \<open>None\<close> is the unbound name.
\<close>

definition SENTENCE_TRANSFORMERS_TASKS_TO_MODEL_LOADERS ::
  "environment \<Rightarrow> (string \<times> model_loaders) list option" where
  "SENTENCE_TRANSFORMERS_TASKS_TO_MODEL_LOADERS env =
    (if torch_available env then
      Some [(''feature-extraction'', Loader ''SentenceTransformer''),
            (''sentence-similarity'', Loader ''SentenceTransformer'')]
     else None)"

definition LIBRARY_TO_TASKS_TO_MODEL_LOADER_MAP ::
  "environment \<Rightarrow> (string \<times> (string \<times> model_loaders) list) list" where
  "LIBRARY_TO_TASKS_TO_MODEL_LOADER_MAP env =
    (if torch_available env then
      [(''diffusers'', DIFFUSERS_TASKS_TO_MODEL_LOADERS env),
       (''sentence_transformers'',
          (case SENTENCE_TRANSFORMERS_TASKS_TO_MODEL_LOADERS env of Some d \<Rightarrow> d | None \<Rightarrow> [])),
       (''timm'', TIMM_TASKS_TO_MODEL_LOADERS env),
       (''transformers'', TRANSFORMERS_TASKS_TO_MODEL_LOADERS env)]
     else [])"

definition TRANSFORMERS_TASKS_TO_TF_MODEL_LOADERS :: "environment \<Rightarrow> (string \<times> model_loaders) list" where
  "TRANSFORMERS_TASKS_TO_TF_MODEL_LOADERS env =
    (if tf_available env then
      [(''conversational'', Loaders [''TFAutoModelForCausalLM'', ''TFAutoModelForSeq2SeqLM'']),
       (''document-question-answering'', Loader ''TFAutoModelForDocumentQuestionAnswering''),
       (''feature-extraction'', Loader ''TFAutoModel''),
       (''fill-mask'', Loader ''TFAutoModelForMaskedLM''),
       (''text-generation'', Loader ''TFAutoModelForCausalLM''),
       (''image-classification'', Loader ''TFAutoModelForImageClassification''),
       (''text2text-generation'', Loader ''TFAutoModelForSeq2SeqLM''),
       (''text-classification'', Loader ''TFAutoModelForSequenceClassification''),
       (''token-classification'', Loader ''TFAutoModelForTokenClassification''),
       (''multiple-choice'', Loader ''TFAutoModelForMultipleChoice''),
       (''object-detection'', Loader ''TFAutoModelForObjectDetection''),
       (''question-answering'', Loader ''TFAutoModelForQuestionAnswering''),
       (''image-segmentation'', Loader ''TFAutoModelForImageSegmentation''),
       (''masked-im'', Loader ''TFAutoModelForMaskedImageModeling''),
       (''semantic-segmentation'', Loader ''TFAutoModelForSemanticSegmentation''),
       (''automatic-speech-recognition'', Loader ''TFAutoModelForSpeechSeq2Seq''),
       (''audio-classification'', Loader ''TFAutoModelForAudioClassification''),
       (''audio-frame-classification'', Loader ''TFAutoModelForAudioFrameClassification''),
       (''audio-xvector'', Loader ''TFAutoModelForAudioXVector''),
       (''image-to-text'', Loader ''TFAutoModelForVision2Seq''),
       (''zero-shot-image-classification'', Loader ''TFAutoModelForZeroShotImageClassification''),
       (''zero-shot-object-detection'', Loader ''TFAutoModelForZeroShotObjectDetection'')]
     else [])"

definition LIBRARY_TO_TF_TASKS_TO_MODEL_LOADER_MAP ::
  "environment \<Rightarrow> (string \<times> (string \<times> model_loaders) list) list" where
  "LIBRARY_TO_TF_TASKS_TO_MODEL_LOADER_MAP env =
    (if tf_available env then [(''transformers'', TRANSFORMERS_TASKS_TO_TF_MODEL_LOADERS env)]
     else [])"

text \<open>
  \<^verbatim>\<open>get_model_loaders_to_tasks\<close> reverses a table, a tuple of loaders giving one entry
  for each of its names.
\<close>

fun get_model_loaders_to_tasks ::
  "(string \<times> model_loaders) list \<Rightarrow> (string \<times> string) list \<Rightarrow> (string \<times> string) list" where
  "get_model_loaders_to_tasks [] model_loaders_to_tasks = model_loaders_to_tasks"
| "get_model_loaders_to_tasks ((task, Loader model_loaders) # rest) model_loaders_to_tasks =
     get_model_loaders_to_tasks rest (AList.update model_loaders task model_loaders_to_tasks)"
| "get_model_loaders_to_tasks ((task, Loaders model_loaders) # rest) model_loaders_to_tasks =
     get_model_loaders_to_tasks rest
       (dict_merge model_loaders_to_tasks (map (\<lambda>model_loader_name. (model_loader_name, task)) model_loaders))"

text \<open>
  The statement of the class body that builds the reversed tables reads
  \<^verbatim>\<open>_SENTENCE_TRANSFORMERS_TASKS_TO_MODEL_LOADERS\<close> outside every
  \<^verbatim>\<open>if is_torch_available():\<close>; where the name is unbound the class body, and with
  it the import of the module, ends in a \<^verbatim>\<open>NameError\<close>.
\<close>

definition LIBRARY_TO_MODEL_LOADERS_TO_TASKS_MAP ::
  "environment \<Rightarrow> error + (string \<times> (string \<times> string) list) list" where
  "LIBRARY_TO_MODEL_LOADERS_TO_TASKS_MAP env =
     (case SENTENCE_TRANSFORMERS_TASKS_TO_MODEL_LOADERS env of
        None \<Rightarrow> Inl (NameError ''_SENTENCE_TRANSFORMERS_TASKS_TO_MODEL_LOADERS'')
      | Some sentence_transformers_loaders \<Rightarrow>
          Inr [(''diffusers'', get_model_loaders_to_tasks (DIFFUSERS_TASKS_TO_MODEL_LOADERS env) []),
               (''sentence_transformers'', get_model_loaders_to_tasks sentence_transformers_loaders []),
               (''timm'', get_model_loaders_to_tasks (TIMM_TASKS_TO_MODEL_LOADERS env) []),
               (''transformers'',
                  get_model_loaders_to_tasks (TRANSFORMERS_TASKS_TO_MODEL_LOADERS env) [])])"

text \<open>The class \<^verbatim>\<open>TasksManager\<close> exists: its body ran to the end.\<close>

definition class_body_completes :: "environment \<Rightarrow> bool" where
  "class_body_completes env =
     (case LIBRARY_TO_MODEL_LOADERS_TO_TASKS_MAP env of Inl e \<Rightarrow> False | Inr m \<Rightarrow> True)"

text \<open>
  \<^verbatim>\<open>get_all_tasks\<close> returns \<^verbatim>\<open>list(set(tasks))\<close>: the distinct task names, in an order
  Python does not specify.  The model lists each name once, in the order that
  \<^const>\<open>remdups\<close> leaves; membership does not depend on the order.
\<close>

definition get_all_tasks :: "environment \<Rightarrow> string list" where
  "get_all_tasks env =
     (let mapping = (if torch_available env then LIBRARY_TO_TASKS_TO_MODEL_LOADER_MAP env
                     else LIBRARY_TO_TF_TASKS_TO_MODEL_LOADER_MAP env);
          tasks = concat (map (\<lambda>d. map fst (snd d)) mapping)
      in remdups tasks)"

subsection \<open>Registration\<close>

text \<open>
  The loop of the decorator over \<^verbatim>\<open>supported_tasks\<close>, on the dictionary
  \<^verbatim>\<open>mapping_backend\<close>.  It returns the exception raised, if any, and the dictionary as
  the loop left it: an exception in the middle of the list does not undo the
  assignments made for the earlier tasks.
\<close>

definition unknown_task_message :: "environment \<Rightarrow> string \<Rightarrow> string" where
  "unknown_task_message env normalized_task =
     ''The TasksManager does not know the task called '' @ dquote @ normalized_task @ dquote
       @ '', known tasks: '' @ join '', '' (get_all_tasks env) @ ''.''"

fun register_tasks ::
  "environment \<Rightarrow> bool \<Rightarrow> config_cls \<Rightarrow> string list \<Rightarrow> task_map \<Rightarrow> error option \<times> task_map" where
  "register_tasks env overwrite_existing config_cls [] mapping_backend = (None, mapping_backend)"
| "register_tasks env overwrite_existing config_cls (task # supported_tasks) mapping_backend =
     (let normalized_task = replace ''-with-past'' [] task in
      if normalized_task \<notin> set (get_all_tasks env)
        then (Some (ValueError (unknown_task_message env normalized_task)), mapping_backend)
      else if \<not> overwrite_existing \<and> map_of mapping_backend task \<noteq> None
        then register_tasks env overwrite_existing config_cls supported_tasks mapping_backend
      else (case make_backend_config_constructor_for_task config_cls task of
              Inl e \<Rightarrow> (Some e, mapping_backend)
            | Inr c \<Rightarrow>
                register_tasks env overwrite_existing config_cls supported_tasks
                  (AList.update task c mapping_backend)))"

text \<open>
  \<^verbatim>\<open>create_register(backend, overwrite_existing)(model_type, *supported_tasks,
  library_name=...)(config_cls)\<close>, as a function of the tables before the call.  It
  returns the exception raised, if any, and the tables after the call.

  \<^verbatim>\<open>mapping\<close> and \<^verbatim>\<open>mapping_backend\<close> are the dictionaries already stored in the table
  when the keys are present, and fresh empty dictionaries otherwise; the loop
  assigns into \<^verbatim>\<open>mapping_backend\<close> in place, and the two dictionaries are linked into
  the table only after the loop.  So when the loop raises, the table shows the
  assignments made so far exactly if both \<^verbatim>\<open>model_type\<close> and \<^verbatim>\<open>backend\<close> were
  present in it before the call.
\<close>

definition create_register ::
  "environment \<Rightarrow> string \<Rightarrow> bool \<Rightarrow> string \<Rightarrow> string list \<Rightarrow> string \<Rightarrow> config_cls \<Rightarrow> registry
     \<Rightarrow> error option \<times> registry" where
  "create_register env backend overwrite_existing model_type supported_tasks library_name config_cls reg =
     (case map_of (LIBRARY_TO_SUPPORTED_MODEL_TYPES reg) library_name of
        None \<Rightarrow> (Some (KeyError library_name), reg)
      | Some supported_model_type_for_library \<Rightarrow>
          (let mapping = (case map_of supported_model_type_for_library model_type of
                            Some m \<Rightarrow> m | None \<Rightarrow> []);
               mapping_backend = (case map_of mapping backend of Some mb \<Rightarrow> mb | None \<Rightarrow> []);
               looped = register_tasks env overwrite_existing config_cls supported_tasks mapping_backend;
               linked = store_library library_name
                          (AList.update model_type (AList.update backend (snd looped) mapping)
                             supported_model_type_for_library) reg
           in (case fst looped of
                 None \<Rightarrow> (None, linked)
               | Some e \<Rightarrow>
                   (Some e,
                    if map_of supported_model_type_for_library model_type \<noteq> None
                       \<and> map_of mapping backend \<noteq> None
                    then linked else reg))))"

text \<open>A sequence of decorator applications, whether they raise or not.\<close>

record registration =
  reg_backend :: string
  reg_overwrite_existing :: bool
  reg_model_type :: string
  reg_supported_tasks :: "string list"
  reg_library_name :: string
  reg_config_cls :: config_cls

definition apply_registration :: "environment \<Rightarrow> registry \<Rightarrow> registration \<Rightarrow> registry" where
  "apply_registration env reg r =
     snd (create_register env (reg_backend r) (reg_overwrite_existing r) (reg_model_type r)
            (reg_supported_tasks r) (reg_library_name r) (reg_config_cls r) reg)"

definition apply_registrations :: "environment \<Rightarrow> registration list \<Rightarrow> registry \<Rightarrow> registry" where
  "apply_registrations env rs reg = foldl (apply_registration env) reg rs"

text \<open>The constructor stored for a library, model type, backend and task, if any.\<close>

definition registered ::
  "registry \<Rightarrow> string \<Rightarrow> string \<Rightarrow> string \<Rightarrow> string \<Rightarrow> constructor option" where
  "registered reg library_name model_type backend task =
     (case map_of (LIBRARY_TO_SUPPORTED_MODEL_TYPES reg) library_name of
        None \<Rightarrow> None
      | Some tbl \<Rightarrow>
          (case map_of tbl model_type of
             None \<Rightarrow> None
           | Some mapping \<Rightarrow>
               (case map_of mapping backend of
                  None \<Rightarrow> None
                | Some mapping_backend \<Rightarrow> map_of mapping_backend task)))"

subsection \<open>Looking a constructor up\<close>

text \<open>\<^verbatim>\<open>d[k]\<close> on a dictionary with string keys: a missing key raises \<^verbatim>\<open>KeyError(k)\<close>.\<close>

definition subscript :: "(string \<times> 'v) list \<Rightarrow> string \<Rightarrow> error + 'v" where
  "subscript d k = (case map_of d k of None \<Rightarrow> Inl (KeyError k) | Some v \<Rightarrow> Inr v)"

text \<open>
  The dictionary \<^verbatim>\<open>{**diffusers, **timm, **sentence_transformers, **transformers}\<close> that
  both lookup functions build when \<^verbatim>\<open>library_name\<close> is \<^verbatim>\<open>None\<close>.
\<close>

definition all_libraries_merged :: "registry \<Rightarrow> model_type_table" where
  "all_libraries_merged reg =
     dict_merge (dict_merge (dict_merge (DIFFUSERS_SUPPORTED_MODEL_TYPE reg)
       (TIMM_SUPPORTED_MODEL_TYPE reg)) (SENTENCE_TRANSFORMERS_SUPPORTED_MODEL_TYPE reg))
       (SUPPORTED_MODEL_TYPE reg)"

definition get_supported_tasks_for_model_type ::
  "registry \<Rightarrow> string \<Rightarrow> string \<Rightarrow> string option \<Rightarrow> string option \<Rightarrow> error + task_map" where
  "get_supported_tasks_for_model_type reg model_type exporter model_name library_name =
     (case (case library_name of
              None \<Rightarrow> Inr (all_libraries_merged reg, ''transformers'')
            | Some l \<Rightarrow>
                (case subscript (LIBRARY_TO_SUPPORTED_MODEL_TYPES reg) l of
                   Inl e \<Rightarrow> Inl e
                 | Inr tbl \<Rightarrow> Inr (tbl, l))) of
        Inl e \<Rightarrow> Inl e
      | Inr (supported_model_type_for_library, library_name') \<Rightarrow>
          (let model_type' = replace ''_'' ''-'' (lower model_type);
               model_type_and_model_name =
                 (case model_name of
                    None \<Rightarrow> model_type'
                  | Some n \<Rightarrow> if n = [] then model_type' else model_type' @ '' ('' @ n @ '')'');
               default_model_type = map_of MODEL_TYPE_FOR_DEFAULT_CONFIG library_name'
           in (case (if map_of supported_model_type_for_library model_type' = None
                     then (case default_model_type of
                             Some d \<Rightarrow> Inr d
                           | None \<Rightarrow>
                               Inl (KeyError
                                 (model_type_and_model_name @ '' is not supported yet for ''
                                  @ library_name' @ ''. Only ''
                                  @ py_list_repr (map fst supported_model_type_for_library)
                                  @ '' are supported for the library '' @ library_name'
                                  @ ''. If you want to support '' @ model_type'
                                  @ '' please propose a PR or open up an issue.'')))
                     else Inr model_type') of
                 Inl e \<Rightarrow> Inl e
               | Inr model_type'' \<Rightarrow>
                   (case subscript supported_model_type_for_library model_type'' of
                      Inl e \<Rightarrow> Inl e
                    | Inr mapping \<Rightarrow>
                        (case map_of mapping exporter of
                           None \<Rightarrow>
                             Inl (KeyError
                               (model_type_and_model_name @ '' is not supported yet with the ''
                                @ exporter @ '' backend. Only '' @ py_list_repr (map fst mapping)
                                @ '' are supported. If you want to support '' @ exporter
                                @ '' please propose a PR or open up an issue.''))
                         | Some model_tasks \<Rightarrow> Inr model_tasks)))))"

text \<open>
  \<^verbatim>\<open>synonyms_for_task\<close> returns a set; the loop of the caller below walks it in an
  order Python does not specify.  The model lists each synonym once, in the order
  that \<^const>\<open>remdups\<close> leaves.
\<close>

definition synonyms_for_task :: "string \<Rightarrow> string list" where
  "synonyms_for_task task =
     (let synonyms = map fst (filter (\<lambda>kv. snd kv = task) SYNONYM_TASK_MAP)
                     @ map fst (filter (\<lambda>kv. snd kv = map_from_synonym task) SYNONYM_TASK_MAP)
      in filter (\<lambda>k. k \<noteq> task) (remdups synonyms))"

text \<open>
  What the function reads of a model object: \<^verbatim>\<open>model.config.export_model_type\<close>
  (\<open>None\<close>: no such attribute), \<^verbatim>\<open>model.config.model_type\<close> and \<^verbatim>\<open>model.name\<close>
  (\<open>None\<close>: no such attribute).
\<close>

record model =
  export_model_type :: "string option option"
  config_model_type :: "string option"
  name_attr :: "string option option"

definition get_exporter_config_constructor ::
  "registry \<Rightarrow> string \<Rightarrow> model option \<Rightarrow> string \<Rightarrow> string option \<Rightarrow> string option
     \<Rightarrow> (string \<times> pyval) list option \<Rightarrow> string option \<Rightarrow> error + constructor" where
  "get_exporter_config_constructor reg exporter model task model_type model_name
       exporter_config_kwargs library_name =
     (case (case library_name of
              None \<Rightarrow> Inr (all_libraries_merged reg, ''transformers'')
            | Some l \<Rightarrow>
                (case subscript (LIBRARY_TO_SUPPORTED_MODEL_TYPES reg) l of
                   Inl e \<Rightarrow> Inl e
                 | Inr tbl \<Rightarrow> Inr (tbl, l))) of
        Inl e \<Rightarrow> Inl e
      | Inr (supported_model_type_for_library, library_name') \<Rightarrow>
          (case (case model_type of
                   Some mt \<Rightarrow> Inr (mt, model_name)
                 | None \<Rightarrow>
                     (case model of
                        None \<Rightarrow>
                          Inl (ValueError
                            ''Either a model_type or model should be provided to retrieve the export config.'')
                      | Some m \<Rightarrow>
                          (case (case export_model_type m of
                                   Some v \<Rightarrow> v
                                 | None \<Rightarrow> config_model_type m) of
                             None \<Rightarrow>
                               Inl (ValueError
                                 ''Model type cannot be inferred. Please provide the model_type for the model!'')
                           | Some mt \<Rightarrow>
                               Inr (replace ''_'' ''-'' mt,
                                    (case name_attr m of Some n \<Rightarrow> n | None \<Rightarrow> model_name))))) of
             Inl e \<Rightarrow> Inl e
           | Inr (model_type', model_name') \<Rightarrow>
               (case get_supported_tasks_for_model_type reg model_type' exporter model_name'
                       (Some library_name') of
                  Inl e \<Rightarrow> Inl e
                | Inr model_tasks \<Rightarrow>
                    (let task' =
                           (if map_of model_tasks task = None
                            then (case find (\<lambda>synonym. map_of model_tasks synonym \<noteq> None)
                                         (synonyms_for_task task) of
                                    Some synonym \<Rightarrow> synonym
                                  | None \<Rightarrow> task)
                            else task)
                     in if map_of model_tasks task' = None
                        then Inl (ValueError
                               (model_type' @ '' doesn'' @ quote @ ''t support task '' @ task'
                                @ '' for the '' @ exporter @ '' backend. Supported tasks are: ''
                                @ join '', '' (map fst model_tasks) @ ''.''))
                        else
                          (case (if map_of supported_model_type_for_library model_type' = None
                                 then subscript MODEL_TYPE_FOR_DEFAULT_CONFIG library_name'
                                 else Inr model_type') of
                             Inl e \<Rightarrow> Inl e
                           | Inr model_type'' \<Rightarrow>
                               (case subscript supported_model_type_for_library model_type'' of
                                  Inl e \<Rightarrow> Inl e
                                | Inr mapping \<Rightarrow>
                                    (case subscript mapping exporter of
                                       Inl e \<Rightarrow> Inl e
                                     | Inr mapping_backend \<Rightarrow>
                                         (case subscript mapping_backend task' of
                                            Inl e \<Rightarrow> Inl e
                                          | Inr exporter_config_constructor \<Rightarrow>
                                              (case exporter_config_kwargs of
                                                 None \<Rightarrow> Inr exporter_config_constructor
                                               | Some kwargs \<Rightarrow>
                                                   Inr (partial exporter_config_constructor kwargs))))))))))"

subsection \<open>Inferring the library\<close>

text \<open>
  The collaborators are arguments: \<open>listing\<close> is what \<^verbatim>\<open>get_model_files\<close> does (it
  raises, or returns the file list and the connection exception it caught, if any),
  \<open>parsed\<close> is what parsing the configuration file does (it raises, or returns a
  configuration of which the function asks three \<^verbatim>\<open>hasattr\<close> questions), and
  \<open>CONFIG_NAME\<close> is the constant imported from \<^verbatim>\<open>optimum.utils\<close>.
\<close>

record model_config =
  has_pretrained_cfg :: bool
  has_architecture :: bool
  has_diffusers_version :: bool

type_synonym listing = "error + (string list \<times> string option)"

text \<open>
  The chain of branches of \<^verbatim>\<open>infer_library_from_model\<close>: the value of the variable
  \<^verbatim>\<open>library_name\<close> when control reaches the final guard
  \<^verbatim>\<open>if library_name is None: raise ValueError(...)\<close>.
\<close>

definition library_chain ::
  "string \<Rightarrow> string list \<Rightarrow> error + model_config \<Rightarrow> error + string option" where
  "library_chain CONFIG_NAME all_files parsed =
     (if ''model_index.json'' \<in> set all_files then Inr (Some ''diffusers'')
      else if list_ex (\<lambda>file_path. startswith file_path ''sentence_'') all_files
              \<or> ''config_sentence_transformers.json'' \<in> set all_files
        then Inr (Some ''sentence_transformers'')
      else if CONFIG_NAME \<in> set all_files then
        (case parsed of
           Inl e \<Rightarrow> Inl e
         | Inr model_config \<Rightarrow>
             if has_pretrained_cfg model_config \<or> has_architecture model_config
               then Inr (Some ''timm'')
             else if has_diffusers_version model_config then Inr (Some ''diffusers'')
             else Inr (Some ''transformers''))
      else Inr (Some ''transformers''))"

definition infer_library_from_model ::
  "string \<Rightarrow> listing \<Rightarrow> error + model_config \<Rightarrow> string option \<Rightarrow> pyval option \<Rightarrow> pyval option
     \<Rightarrow> error + string" where
  "infer_library_from_model CONFIG_NAME listing parsed library_name use_auth_token token =
     (if use_auth_token \<noteq> None \<and> token \<noteq> None
        then Inl (ValueError
               ''You cannot use both `use_auth_token` and `token` arguments at the same time.'')
      else (case library_name of
              Some l \<Rightarrow> Inr l
            | None \<Rightarrow>
                (case listing of
                   Inl e \<Rightarrow> Inl e
                 | Inr (all_files, request_exception) \<Rightarrow>
                     (case library_chain CONFIG_NAME all_files parsed of
                        Inl e \<Rightarrow> Inl e
                      | Inr None \<Rightarrow>
                          Inl (ValueError
                            ''The library name could not be automatically inferred. If using the command-line, please provide the argument --library {transformers,diffusers,timm,sentence_transformers}. Example: `--library diffusers`.'')
                      | Inr (Some l) \<Rightarrow> Inr l))))"

subsection \<open>Determining the framework\<close>

text \<open>
  The names of the weight files, constants of \<^verbatim>\<open>transformers.utils\<close>, and
  \<^verbatim>\<open>Path(name).stem\<close> and \<^verbatim>\<open>Path(name).suffix\<close> for a path of one component: the
  suffix starts at the last dot, unless that dot is the first or the last character.
\<close>

definition WEIGHTS_NAME :: string where
  "WEIGHTS_NAME = ''pytorch_model.bin''"

definition SAFE_WEIGHTS_NAME :: string where
  "SAFE_WEIGHTS_NAME = ''model.safetensors''"

definition TF2_WEIGHTS_NAME :: string where
  "TF2_WEIGHTS_NAME = ''tf_model.h5''"

definition suffix_start :: "string \<Rightarrow> nat option" where
  "suffix_start name =
     (let after = takeWhile (\<lambda>c. c \<noteq> CHR ''.'') (rev name);
          i = length name - length after - 1
      in if CHR ''.'' \<in> set name \<and> 0 < i \<and> after \<noteq> [] then Some i else None)"

definition path_suffix :: "string \<Rightarrow> string" where
  "path_suffix name = (case suffix_start name of Some i \<Rightarrow> drop i name | None \<Rightarrow> [])"

definition path_stem :: "string \<Rightarrow> string" where
  "path_stem name = (case suffix_start name of Some i \<Rightarrow> take i name | None \<Rightarrow> name)"

definition is_pt_weight_file :: "string \<Rightarrow> bool" where
  "is_pt_weight_file file =
     ((startswith file (path_stem WEIGHTS_NAME) \<and> endswith file (path_suffix WEIGHTS_NAME))
      \<or> (startswith file (path_stem SAFE_WEIGHTS_NAME)
          \<and> endswith file (path_suffix SAFE_WEIGHTS_NAME)))"

definition is_tf_weight_file :: "string \<Rightarrow> bool" where
  "is_tf_weight_file file =
     (startswith file (path_stem TF2_WEIGHTS_NAME) \<and> endswith file (path_suffix TF2_WEIGHTS_NAME))"

text \<open>\<^verbatim>\<open>framework or fallback\<close>: the empty string is false.\<close>

definition py_or :: "string \<Rightarrow> string \<Rightarrow> string" where
  "py_or framework fallback = (if framework = [] then fallback else framework)"

definition determine_framework :: "environment \<Rightarrow> listing \<Rightarrow> string option \<Rightarrow> error + string" where
  "determine_framework env listing framework =
     (case framework of
        Some f \<Rightarrow> Inr f
      | None \<Rightarrow>
          (case listing of
             Inl e \<Rightarrow> Inl e
           | Inr (all_files, request_exception) \<Rightarrow>
               (case (if list_ex is_pt_weight_file all_files then Inr ''pt''
                      else if list_ex is_tf_weight_file all_files then Inr ''tf''
                      else if ''model_index.json'' \<in> set all_files
                              \<and> list_ex (\<lambda>file. endswith file (path_suffix WEIGHTS_NAME)
                                                \<or> endswith file (path_suffix SAFE_WEIGHTS_NAME))
                                   all_files
                        then Inr ''pt''
                      else if ''config_sentence_transformers.json'' \<in> set all_files then Inr ''pt''
                      else (case request_exception of
                              Some detail \<Rightarrow>
                                Inl (RequestsConnectionError
                                  (''The framework could not be automatically inferred. If using the command-line, please provide the argument --framework (pt,tf) Detailed error: ''
                                   @ detail))
                            | None \<Rightarrow>
                                Inl (FileNotFoundError
                                  (''Cannot determine framework from given checkpoint location.''
                                   @ '' There should be a '' @ path_stem WEIGHTS_NAME @ ''*''
                                   @ path_suffix WEIGHTS_NAME @ '' for PyTorch'' @ '' or ''
                                   @ path_stem TF2_WEIGHTS_NAME @ ''*'' @ path_suffix TF2_WEIGHTS_NAME
                                   @ '' for TensorFlow.'')))) of
                  Inl e \<Rightarrow> Inl e
                | Inr fw \<Rightarrow>
                    if torch_available env then Inr (py_or fw ''pt'')
                    else if tf_available env then Inr (py_or fw ''tf'')
                    else Inl (EnvironmentError
                           ''Neither PyTorch nor TensorFlow found in environment. Cannot export model.''))))"

subsection \<open>Sample inputs\<close>

text \<open>
  An installation with PyTorch and the ONNX exporter but without TensorFlow, in which
  every configuration class asked for exists and has no support for past key values;
  a class to register; and tables without any entry.
\<close>

definition sample_environment :: environment where
  "sample_environment =
     \<lparr>torch_available = True, tf_available = False, onnx_available = True,
      model_configs = (\<lambda>backend config_cls_name.
         Inr \<lparr>cls_name = config_cls_name, SUPPORTS_PAST = False\<rparr>)\<rparr>"

definition sample_config_cls :: config_cls where
  "sample_config_cls = \<lparr>cls_name = ''BertNewBackendConfig'', SUPPORTS_PAST = False\<rparr>"

definition other_config_cls :: config_cls where
  "other_config_cls = \<lparr>cls_name = ''OtherNewBackendConfig'', SUPPORTS_PAST = False\<rparr>"

definition empty_registry :: registry where
  "empty_registry =
     \<lparr>DIFFUSERS_SUPPORTED_MODEL_TYPE = [], SENTENCE_TRANSFORMERS_SUPPORTED_MODEL_TYPE = [],
      TIMM_SUPPORTED_MODEL_TYPE = [], SUPPORTED_MODEL_TYPE = []\<rparr>"

text \<open>Tables in which the model type \<^verbatim>\<open>bert\<close> has one task for the backend \<^verbatim>\<open>onnx\<close>.\<close>

definition bert_registry :: registry where
  "bert_registry = empty_registry\<lparr>SUPPORTED_MODEL_TYPE :=
      [(''bert'', [(''onnx'', [(''feature-extraction'',
          \<lparr>func = \<lparr>cls_name = ''BertOnnxConfig'', SUPPORTS_PAST = False\<rparr>,
           kwds = [(''task'', PyStr ''feature-extraction'')]\<rparr>)])])]\<rparr>"

section \<open>Properties\<close>

subsection \<open>Synonyms\<close>

lemma synonym_values_are_canonical:
  "list_all (\<lambda>v. map_of SYNONYM_TASK_MAP v = None) (map snd SYNONYM_TASK_MAP)"
  by (simp add: SYNONYM_TASK_MAP_def)

lemma synonym_value_not_key:
  assumes "map_of SYNONYM_TASK_MAP t = Some v"
  shows "map_of SYNONYM_TASK_MAP v = None"
proof -
  from assms have "v \<in> set (map snd SYNONYM_TASK_MAP)"
    by (metis map_of_SomeD set_zip_rightD zip_map_fst_snd)
  with synonym_values_are_canonical show ?thesis
    by (auto simp add: list_all_iff)
qed

text \<open>
  C2: \<open>map_from_synonym\<close> is idempotent on every task string, and no value of the
  synonym map is a key of the synonym map.
\<close>

theorem map_from_synonym_idempotent:
  "map_from_synonym (map_from_synonym t) = map_from_synonym t
   \<and> set (map snd SYNONYM_TASK_MAP) \<inter> set (map fst SYNONYM_TASK_MAP) = {}"
proof
  show "map_from_synonym (map_from_synonym t) = map_from_synonym t"
  proof (cases "map_of SYNONYM_TASK_MAP t")
    case None
    then show ?thesis by (simp add: map_from_synonym_def)
  next
    case (Some v)
    then show ?thesis
      using synonym_value_not_key [OF Some] by (simp add: map_from_synonym_def)
  qed
next
  have "v \<notin> set (map fst SYNONYM_TASK_MAP)" if "v \<in> set (map snd SYNONYM_TASK_MAP)" for v
  proof -
    from that synonym_values_are_canonical have "map_of SYNONYM_TASK_MAP v = None"
      by (auto simp add: list_all_iff)
    then show ?thesis
      by (simp add: map_of_eq_None_iff)
  qed
  then show "set (map snd SYNONYM_TASK_MAP) \<inter> set (map fst SYNONYM_TASK_MAP) = {}"
    by blast
qed

subsection \<open>String operations on concrete arguments\<close>

lemma replace_Nil: "replace old new [] = (if old = [] then new else [])"
  by (simp add: replace.simps)

lemma replace_Cons:
  "old \<noteq> [] \<Longrightarrow> replace old new (c # cs) =
     (if startswith (c # cs) old then new @ replace old new (drop (length old) (c # cs))
      else c # replace old new cs)"
  by (subst replace.simps) simp

lemma weight_name_parts:
  "path_stem WEIGHTS_NAME = ''pytorch_model''" "path_suffix WEIGHTS_NAME = ''.bin''"
  "path_stem SAFE_WEIGHTS_NAME = ''model''" "path_suffix SAFE_WEIGHTS_NAME = ''.safetensors''"
  "path_stem TF2_WEIGHTS_NAME = ''tf_model''" "path_suffix TF2_WEIGHTS_NAME = ''.h5''"
  by (simp_all add: path_stem_def path_suffix_def suffix_start_def WEIGHTS_NAME_def
        SAFE_WEIGHTS_NAME_def TF2_WEIGHTS_NAME_def Let_def)

subsection \<open>The class body and the environment\<close>

text \<open>
  The class body completes exactly where PyTorch is installed: every call of a method
  of \<^verbatim>\<open>TasksManager\<close> happens in such an environment.
\<close>

lemma class_body_completes_iff: "class_body_completes env \<longleftrightarrow> torch_available env"
  by (simp add: class_body_completes_def LIBRARY_TO_MODEL_LOADERS_TO_TASKS_MAP_def
        SENTENCE_TRANSFORMERS_TASKS_TO_MODEL_LOADERS_def)

lemma sample_environment_completes: "class_body_completes sample_environment"
  by (simp add: class_body_completes_iff sample_environment_def)

subsection \<open>Determining the framework\<close>

text \<open>
  C8: with a framework argument other than \<^verbatim>\<open>None\<close>, \<open>determine_framework\<close> returns the
  argument as it is, whatever the string, whatever the environment and whatever listing
  the files would do (also if it would raise): the listing is not consulted and nothing
  is validated.
\<close>

theorem determine_framework_explicit: "determine_framework env listing (Some f) = Inr f"
  by (simp add: determine_framework_def)

theorem determine_framework_explicit_witness:
  "determine_framework sample_environment (Inl (ExternalError ''offline'')) (Some ''jax'')
     = Inr ''jax''"
  using determine_framework_explicit [of sample_environment "Inl (ExternalError ''offline'')" "''jax''"]
  by simp

lemma manifest_files_scan:
  "\<not> list_ex is_pt_weight_file [''model_index.json'', ''unet/diffusion_pytorch_model.bin'']"
  "\<not> list_ex is_tf_weight_file [''model_index.json'', ''unet/diffusion_pytorch_model.bin'']"
  "list_ex (\<lambda>file. endswith file (path_suffix WEIGHTS_NAME)
                    \<or> endswith file (path_suffix SAFE_WEIGHTS_NAME))
     [''model_index.json'', ''unet/diffusion_pytorch_model.bin'']"
  by (simp_all add: is_pt_weight_file_def is_tf_weight_file_def weight_name_parts
        startswith_def endswith_def)

text \<open>
  On the two files of the diffusion scenario the scan settles on \<^verbatim>\<open>"pt"\<close>; the check
  of the environment that follows the scan lets the value through where one of the two
  runtimes is installed.
\<close>

lemma determine_framework_manifest_any_environment:
  "determine_framework env
     (Inr ([''model_index.json'', ''unet/diffusion_pytorch_model.bin''], request_exception)) None =
   (if torch_available env \<or> tf_available env then Inr ''pt''
    else Inl (EnvironmentError
           ''Neither PyTorch nor TensorFlow found in environment. Cannot export model.''))"
  unfolding determine_framework_def using manifest_files_scan
  by (simp add: py_or_def)

text \<open>
  C6: in an environment in which the class exists, \<open>determine_framework\<close> without a
  framework argument, on the file list \<^verbatim>\<open>["model_index.json",
  "unet/diffusion_pytorch_model.bin"]\<close>, returns \<^verbatim>\<open>"pt"\<close>.
\<close>

theorem determine_framework_diffusion_manifest:
  assumes "class_body_completes env"
  shows "determine_framework env
     (Inr ([''model_index.json'', ''unet/diffusion_pytorch_model.bin''], request_exception)) None =
     Inr ''pt''"
  using assms by (simp add: determine_framework_manifest_any_environment class_body_completes_iff)

theorem determine_framework_diffusion_manifest_witness:
  "class_body_completes sample_environment \<and>
   determine_framework sample_environment
     (Inr ([''model_index.json'', ''unet/diffusion_pytorch_model.bin''], None)) None = Inr ''pt''"
proof -
  note h = sample_environment_completes
  from determine_framework_diffusion_manifest [OF h, of None] h show ?thesis by simp
qed

lemma determine_framework_pt_any_environment:
  assumes "list_ex is_pt_weight_file all_files"
  shows "determine_framework env (Inr (all_files, request_exception)) None =
   (if torch_available env \<or> tf_available env then Inr ''pt''
    else Inl (EnvironmentError
           ''Neither PyTorch nor TensorFlow found in environment. Cannot export model.''))"
  unfolding determine_framework_def using assms
  by (simp add: py_or_def)

text \<open>
  C9: in an environment in which the class exists, when the file list holds a file
  matching the PyTorch pattern (\<^verbatim>\<open>pytorch_model*.bin\<close> or \<^verbatim>\<open>model*.safetensors\<close>) and a
  file matching the TensorFlow pattern (\<^verbatim>\<open>tf_model*.h5\<close>), \<open>determine_framework\<close>
  without a framework argument returns \<^verbatim>\<open>"pt"\<close>: the PyTorch test comes first.
\<close>

theorem determine_framework_pt_precedence:
  assumes "class_body_completes env"
    and "list_ex is_pt_weight_file all_files"
    and "list_ex is_tf_weight_file all_files"
  shows "determine_framework env (Inr (all_files, request_exception)) None = Inr ''pt''"
  using assms(1) determine_framework_pt_any_environment [OF assms(2)]
  by (simp add: class_body_completes_iff)

theorem determine_framework_pt_precedence_witness:
  "class_body_completes sample_environment
   \<and> list_ex is_pt_weight_file [''tf_model.h5'', ''pytorch_model.bin'']
   \<and> list_ex is_tf_weight_file [''tf_model.h5'', ''pytorch_model.bin'']
   \<and> list_ex is_pt_weight_file [''tf_model.h5'', ''model.safetensors'']
   \<and> determine_framework sample_environment
        (Inr ([''tf_model.h5'', ''pytorch_model.bin''], None)) None = Inr ''pt''"
proof -
  note h = sample_environment_completes
  have pt: "list_ex is_pt_weight_file [''tf_model.h5'', ''pytorch_model.bin'']"
    by (simp add: is_pt_weight_file_def weight_name_parts startswith_def endswith_def)
  have tf: "list_ex is_tf_weight_file [''tf_model.h5'', ''pytorch_model.bin'']"
    by (simp add: is_tf_weight_file_def weight_name_parts startswith_def endswith_def)
  have safe: "list_ex is_pt_weight_file [''tf_model.h5'', ''model.safetensors'']"
    by (simp add: is_pt_weight_file_def weight_name_parts startswith_def endswith_def)
  from determine_framework_pt_precedence [OF h pt tf, of None] h pt tf safe
  show ?thesis by simp
qed

subsection \<open>Inferring the library\<close>

text \<open>
  C7: the final guard of \<open>infer_library_from_model\<close> never fires.  Whatever the file
  list, the chain of branches does not reach the guard with \<^verbatim>\<open>library_name\<close> still
  \<^verbatim>\<open>None\<close>: either parsing the configuration file raised, or one of the four library
  names has been assigned.  So a call without \<^verbatim>\<open>library_name\<close> whose listing and
  parsing succeed returns one of the four names.
\<close>

theorem library_guard_unreachable:
  "library_chain CONFIG_NAME all_files parsed \<noteq> Inr None
   \<and> (case library_chain CONFIG_NAME all_files parsed of
         Inl e \<Rightarrow> parsed = Inl e
       | Inr assigned \<Rightarrow>
           assigned \<in> Some ` {''diffusers'', ''sentence_transformers'', ''timm'', ''transformers''})
   \<and> infer_library_from_model CONFIG_NAME (Inr (all_files, request_exception)) (Inr model_config)
        None None token
      \<in> Inr ` {''diffusers'', ''sentence_transformers'', ''timm'', ''transformers''}"
  by (auto simp add: library_chain_def infer_library_from_model_def split: sum.splits)

subsection \<open>Registration\<close>

lemma library_lookup_cases:
  "map_of (LIBRARY_TO_SUPPORTED_MODEL_TYPES reg) lib = Some tbl \<Longrightarrow>
     lib \<in> {''diffusers'', ''sentence_transformers'', ''timm'', ''transformers''}"
  by (auto simp add: LIBRARY_TO_SUPPORTED_MODEL_TYPES_def split: if_splits)

lemma store_library_same:
  "map_of (LIBRARY_TO_SUPPORTED_MODEL_TYPES reg) lib = Some tbl \<Longrightarrow> store_library lib tbl reg = reg"
  by (auto simp add: LIBRARY_TO_SUPPORTED_MODEL_TYPES_def store_library_def split: if_splits)

lemma lookup_store_library:
  "map_of (LIBRARY_TO_SUPPORTED_MODEL_TYPES reg) lib = Some tbl \<Longrightarrow>
   map_of (LIBRARY_TO_SUPPORTED_MODEL_TYPES (store_library lib tbl' reg)) lib' =
     (if lib' = lib then Some tbl' else map_of (LIBRARY_TO_SUPPORTED_MODEL_TYPES reg) lib')"
  by (auto simp add: LIBRARY_TO_SUPPORTED_MODEL_TYPES_def store_library_def split: if_splits)

lemma torch_task_names:
  assumes "torch_available env"
  shows "get_all_tasks env = remdups
     ([''stable-diffusion'', ''stable-diffusion-xl''] @
      [''feature-extraction'', ''sentence-similarity''] @
      [''image-classification''] @
      [''audio-classification'', ''audio-frame-classification'', ''audio-xvector'',
       ''automatic-speech-recognition'', ''conversational'', ''depth-estimation'',
       ''feature-extraction'', ''fill-mask'', ''image-classification'', ''image-segmentation'',
       ''image-to-image'', ''image-to-text'', ''mask-generation'', ''masked-im'',
       ''multiple-choice'', ''object-detection'', ''question-answering'',
       ''semantic-segmentation'', ''text-to-audio'', ''text-generation'',
       ''text2text-generation'', ''text-classification'', ''token-classification'',
       ''zero-shot-image-classification'', ''zero-shot-object-detection''])"
  unfolding get_all_tasks_def LIBRARY_TO_TASKS_TO_MODEL_LOADER_MAP_def
    DIFFUSERS_TASKS_TO_MODEL_LOADERS_def SENTENCE_TRANSFORMERS_TASKS_TO_MODEL_LOADERS_def
    TIMM_TASKS_TO_MODEL_LOADERS_def TRANSFORMERS_TASKS_TO_MODEL_LOADERS_def Let_def
  by (simp only: assms if_True option.case list.map concat.simps snd_conv fst_conv append.simps)

lemma tf_task_names:
  assumes "\<not> torch_available env"
  shows "get_all_tasks env = remdups
     (if tf_available env then
      [''conversational'', ''document-question-answering'', ''feature-extraction'', ''fill-mask'',
       ''text-generation'', ''image-classification'', ''text2text-generation'',
       ''text-classification'', ''token-classification'', ''multiple-choice'',
       ''object-detection'', ''question-answering'', ''image-segmentation'', ''masked-im'',
       ''semantic-segmentation'', ''automatic-speech-recognition'', ''audio-classification'',
       ''audio-frame-classification'', ''audio-xvector'', ''image-to-text'',
       ''zero-shot-image-classification'', ''zero-shot-object-detection'']
      else [])"
proof (cases "tf_available env")
  case True
  show ?thesis
    unfolding get_all_tasks_def LIBRARY_TO_TF_TASKS_TO_MODEL_LOADER_MAP_def
      TRANSFORMERS_TASKS_TO_TF_MODEL_LOADERS_def Let_def
    by (simp only: assms True if_True if_False list.map concat.simps snd_conv fst_conv
          append.simps append_Nil2)
next
  case False
  show ?thesis
    unfolding get_all_tasks_def LIBRARY_TO_TF_TASKS_TO_MODEL_LOADER_MAP_def Let_def
    by (simp only: assms False if_False list.map concat.simps)
qed

lemma bogus_task_unknown: "''bogus-task'' \<notin> set (get_all_tasks env)"
proof (cases "torch_available env")
  case True
  show ?thesis by (simp add: torch_task_names [OF True])
next
  case False
  show ?thesis by (simp add: tf_task_names [OF False])
qed

lemma bogus_task_normalized: "replace ''-with-past'' [] ''bogus-task'' = ''bogus-task''"
  by (simp add: replace_Nil replace_Cons startswith_def)

lemma register_tasks_unknown:
  "replace ''-with-past'' [] task \<notin> set (get_all_tasks env) \<Longrightarrow>
   register_tasks env ow cls (task # ts) mb =
     (Some (ValueError (unknown_task_message env (replace ''-with-past'' [] task))), mb)"
  by (simp add: Let_def)

lemma create_register_unfold:
  assumes "map_of (LIBRARY_TO_SUPPORTED_MODEL_TYPES reg) lib = Some tbl"
  shows "create_register env backend ow mt tasks lib cls reg =
     (let mapping = (case map_of tbl mt of Some m \<Rightarrow> m | None \<Rightarrow> []);
          mb = (case map_of mapping backend of Some mb \<Rightarrow> mb | None \<Rightarrow> []);
          looped = register_tasks env ow cls tasks mb;
          linked = store_library lib (AList.update mt (AList.update backend (snd looped) mapping) tbl) reg
      in (case fst looped of
            None \<Rightarrow> (None, linked)
          | Some e \<Rightarrow> (Some e, if map_of tbl mt \<noteq> None \<and> map_of mapping backend \<noteq> None
                                then linked else reg)))"
  using assms by (simp add: create_register_def)

text \<open>
  C4: applying the decorator with the single task \<^verbatim>\<open>"bogus-task"\<close>, which is not among the
  known tasks of any environment, raises the \<^verbatim>\<open>ValueError\<close> whose message lists the
  known tasks, and leaves all four tables as they were.
\<close>

theorem register_bogus_task:
  assumes "library_name \<in> {''diffusers'', ''sentence_transformers'', ''timm'', ''transformers''}"
  shows "create_register env backend overwrite_existing model_type [''bogus-task''] library_name
           config_cls reg =
         (Some (ValueError
            (''The TasksManager does not know the task called '' @ dquote @ ''bogus-task'' @ dquote
             @ '', known tasks: '' @ join '', '' (get_all_tasks env) @ ''.'')), reg)
         \<and> ''bogus-task'' \<notin> set (get_all_tasks env)"
proof -
  from assms obtain tbl where tbl: "map_of (LIBRARY_TO_SUPPORTED_MODEL_TYPES reg) library_name = Some tbl"
    by (auto simp add: LIBRARY_TO_SUPPORTED_MODEL_TYPES_def)
  have loop: "register_tasks env overwrite_existing config_cls [''bogus-task''] mb =
     (Some (ValueError (unknown_task_message env ''bogus-task'')), mb)" for mb
    using register_tasks_unknown [of "''bogus-task''" env] bogus_task_unknown [of env]
    by (simp only: bogus_task_normalized not_False_eq_True)
  have same: "store_library library_name
          (AList.update model_type (AList.update backend mb mapping) tbl) reg = reg"
    if "map_of tbl model_type = Some mapping" "map_of mapping backend = Some mb" for mapping mb
    using that tbl by (simp add: AList.update_triv store_library_same)
  have "create_register env backend overwrite_existing model_type [''bogus-task''] library_name
           config_cls reg = (Some (ValueError (unknown_task_message env ''bogus-task'')), reg)"
  proof (cases "map_of tbl model_type")
    case None
    then show ?thesis by (simp add: create_register_unfold [OF tbl] loop del: register_tasks.simps)
  next
    case (Some mapping)
    show ?thesis
    proof (cases "map_of mapping backend")
      case None
      with Some show ?thesis by (simp add: create_register_unfold [OF tbl] loop del: register_tasks.simps)
    next
      case (Some mb)
      with \<open>map_of tbl model_type = Some mapping\<close> same [of mapping mb] show ?thesis
        by (simp add: create_register_unfold [OF tbl] loop del: register_tasks.simps)
    qed
  qed
  then show ?thesis
    using bogus_task_unknown [of env] by (simp only: unknown_task_message_def simp_thms)
qed

theorem register_bogus_task_witness:
  "''transformers'' \<in> {''diffusers'', ''sentence_transformers'', ''timm'', ''transformers''}
   \<and> create_register sample_environment ''onnx'' False ''bert'' [''bogus-task''] ''transformers''
       sample_config_cls empty_registry =
     (Some (ValueError
        (''The TasksManager does not know the task called '' @ dquote @ ''bogus-task'' @ dquote
         @ '', known tasks: '' @ join '', '' (get_all_tasks sample_environment) @ ''.'')),
      empty_registry)"
proof -
  have h: "''transformers'' \<in> {''diffusers'', ''sentence_transformers'', ''timm'', ''transformers''}"
    by simp
  from register_bogus_task [OF h, of sample_environment "''onnx''" False "''bert''"
      sample_config_cls empty_registry] h
  show ?thesis by (simp only: simp_thms)
qed

subsection \<open>The loop of the decorator\<close>

text \<open>The four ways one iteration of the loop can go.\<close>

lemma register_tasks_skip:
  "replace ''-with-past'' [] x \<in> set (get_all_tasks env) \<Longrightarrow> \<not> ow \<Longrightarrow> map_of mb x = Some c \<Longrightarrow>
   register_tasks env ow cls (x # xs) mb = register_tasks env ow cls xs mb"
  by (simp add: Let_def)

lemma register_tasks_fail:
  "replace ''-with-past'' [] x \<in> set (get_all_tasks env) \<Longrightarrow> ow \<or> map_of mb x = None \<Longrightarrow>
   make_backend_config_constructor_for_task cls x = Inl e \<Longrightarrow>
   register_tasks env ow cls (x # xs) mb = (Some e, mb)"
  by (auto simp add: Let_def)

lemma register_tasks_store:
  "replace ''-with-past'' [] x \<in> set (get_all_tasks env) \<Longrightarrow> ow \<or> map_of mb x = None \<Longrightarrow>
   make_backend_config_constructor_for_task cls x = Inr c \<Longrightarrow>
   register_tasks env ow cls (x # xs) mb = register_tasks env ow cls xs (AList.update x c mb)"
  by (auto simp add: Let_def)

lemma register_tasks_iteration:
  obtains (unknown) "replace ''-with-past'' [] x \<notin> set (get_all_tasks env)"
  | (skip) c where "replace ''-with-past'' [] x \<in> set (get_all_tasks env)" "\<not> ow"
      "map_of mb x = Some c"
  | (fail) e where "replace ''-with-past'' [] x \<in> set (get_all_tasks env)"
      "ow \<or> map_of mb x = None" "make_backend_config_constructor_for_task cls x = Inl e"
  | (store) c where "replace ''-with-past'' [] x \<in> set (get_all_tasks env)"
      "ow \<or> map_of mb x = None" "make_backend_config_constructor_for_task cls x = Inr c"
  by (cases "make_backend_config_constructor_for_task cls x"; cases "map_of mb x"; cases ow) auto

lemma register_tasks_raises_later:
  "fst (register_tasks env ow cls good mb) = None \<Longrightarrow>
   replace ''-with-past'' [] bad \<notin> set (get_all_tasks env) \<Longrightarrow>
   register_tasks env ow cls (good @ bad # rest) mb =
     (Some (ValueError (unknown_task_message env (replace ''-with-past'' [] bad))),
      snd (register_tasks env ow cls good mb))"
proof (induction good arbitrary: mb)
  case Nil
  then show ?case by (simp add: register_tasks_unknown)
next
  case (Cons x xs)
  show ?case
  proof (cases rule: register_tasks_iteration [where x=x and env=env and ow=ow and mb=mb and cls=cls])
    case unknown
    with Cons.prems(1) show ?thesis by (simp add: register_tasks_unknown)
  next
    case (skip c)
    note step = register_tasks_skip [OF skip]
    from Cons.prems(1) have "fst (register_tasks env ow cls xs mb) = None"
      by (simp only: step)
    from Cons.IH [OF this Cons.prems(2)] show ?thesis
      by (simp only: step append_Cons)
  next
    case (fail e)
    with Cons.prems(1) show ?thesis by (simp only: register_tasks_fail [OF fail]) simp
  next
    case (store c)
    note step = register_tasks_store [OF store]
    from Cons.prems(1) have "fst (register_tasks env ow cls xs (AList.update x c mb)) = None"
      by (simp only: step)
    from Cons.IH [OF this Cons.prems(2)] show ?thesis
      by (simp only: step append_Cons)
  qed
qed

text \<open>A key of \<^verbatim>\<open>mapping_backend\<close> stays a key, whether the loop raises or not.\<close>

lemma register_tasks_keeps_keys:
  "map_of mb t \<noteq> None \<Longrightarrow> map_of (snd (register_tasks env ow cls ts mb)) t \<noteq> None"
proof (induction ts arbitrary: mb)
  case Nil
  then show ?case by simp
next
  case (Cons x xs)
  show ?case
  proof (cases rule: register_tasks_iteration [where x=x and env=env and ow=ow and mb=mb and cls=cls])
    case unknown
    with Cons.prems show ?thesis by (simp add: register_tasks_unknown)
  next
    case (skip c)
    show ?thesis
      unfolding register_tasks_skip [OF skip] by (rule Cons.IH [OF Cons.prems])
  next
    case (fail e)
    with Cons.prems show ?thesis by (simp only: register_tasks_fail [OF fail]) simp
  next
    case (store c)
    have "map_of (AList.update x c mb) t \<noteq> None"
      using Cons.prems by (simp add: AList.update_conv')
    then show ?thesis
      unfolding register_tasks_store [OF store] by (rule Cons.IH)
  qed
qed

text \<open>
  A stored constructor survives the loop if overwriting is off, or if it is the one
  the loop itself would store for the task.
\<close>

lemma register_tasks_keeps_value:
  "map_of mb t = Some c \<Longrightarrow>
   \<not> ow \<or> make_backend_config_constructor_for_task cls t = Inr c \<Longrightarrow>
   map_of (snd (register_tasks env ow cls ts mb)) t = Some c"
proof (induction ts arbitrary: mb)
  case Nil
  then show ?case by simp
next
  case (Cons x xs)
  show ?case
  proof (cases rule: register_tasks_iteration [where x=x and env=env and ow=ow and mb=mb and cls=cls])
    case unknown
    with Cons.prems show ?thesis by (simp add: register_tasks_unknown)
  next
    case (skip c')
    show ?thesis
      unfolding register_tasks_skip [OF skip] by (rule Cons.IH [OF Cons.prems])
  next
    case (fail e)
    with Cons.prems show ?thesis by (simp only: register_tasks_fail [OF fail]) simp
  next
    case (store c')
    have "map_of (AList.update x c' mb) t = Some c"
      using Cons.prems store by (auto simp add: AList.update_conv')
    then show ?thesis
      unfolding register_tasks_store [OF store] by (rule Cons.IH [OF _ Cons.prems(2)])
  qed
qed

text \<open>
  When the loop ends without an exception, a listed task that was absent, or any listed
  task when overwriting is on, holds the constructor made from the decorated class.
\<close>

lemma register_tasks_stores:
  "fst (register_tasks env ow cls ts mb) = None \<Longrightarrow> t \<in> set ts \<Longrightarrow>
   ow \<or> map_of mb t = None \<Longrightarrow>
   \<exists>c. make_backend_config_constructor_for_task cls t = Inr c
       \<and> map_of (snd (register_tasks env ow cls ts mb)) t = Some c"
proof (induction ts arbitrary: mb)
  case Nil
  then show ?case by simp
next
  case (Cons x xs)
  show ?case
  proof (cases rule: register_tasks_iteration [where x=x and env=env and ow=ow and mb=mb and cls=cls])
    case unknown
    with Cons.prems(1) show ?thesis by (simp add: register_tasks_unknown)
  next
    case (skip c)
    note step = register_tasks_skip [OF skip]
    from skip Cons.prems(3) have "x \<noteq> t" by auto
    with Cons.prems(2) have "t \<in> set xs" by simp
    moreover from Cons.prems(1) have "fst (register_tasks env ow cls xs mb) = None"
      by (simp only: step)
    ultimately show ?thesis
      unfolding step using Cons.prems(3) Cons.IH [of mb] by blast
  next
    case (fail e)
    with Cons.prems(1) show ?thesis by (simp only: register_tasks_fail [OF fail]) simp
  next
    case (store c)
    note step = register_tasks_store [OF store]
    from Cons.prems(1) have ok: "fst (register_tasks env ow cls xs (AList.update x c mb)) = None"
      by (simp only: step)
    show ?thesis
    proof (cases "x = t")
      case True
      have "map_of (AList.update x c mb) t = Some c"
        using True by (simp add: AList.update_conv')
      from register_tasks_keeps_value [OF this, of ow cls env xs] store(3) True
      have "map_of (snd (register_tasks env ow cls xs (AList.update x c mb))) t = Some c"
        by simp
      then have "map_of (snd (register_tasks env ow cls (x # xs) mb)) t = Some c"
        unfolding step .
      with store(3) True show ?thesis by blast
    next
      case False
      with Cons.prems(2) have "t \<in> set xs" by simp
      moreover from False Cons.prems(3) have "ow \<or> map_of (AList.update x c mb) t = None"
        by (auto simp add: AList.update_conv')
      ultimately show ?thesis
        unfolding step by (rule Cons.IH [OF ok])
    qed
  qed
qed

subsection \<open>The decorator and the tables\<close>

text \<open>What the tables hold for a library after the call, in terms of the loop.\<close>

lemma registered_store_library:
  assumes "map_of (LIBRARY_TO_SUPPORTED_MODEL_TYPES reg) lib = Some tbl"
  shows "registered (store_library lib (AList.update mt (AList.update backend mb mapping) tbl) reg)
           lib' mt' backend' t =
         (if lib' = lib \<and> mt' = mt \<and> backend' = backend then map_of mb t
          else if lib' = lib \<and> mt' = mt then (case map_of mapping backend' of None \<Rightarrow> None | Some b \<Rightarrow> map_of b t)
          else registered reg lib' mt' backend' t)"
  using assms
  by (simp add: registered_def lookup_store_library [OF assms] AList.update_conv')

lemma registered_existing:
  assumes "map_of (LIBRARY_TO_SUPPORTED_MODEL_TYPES reg) lib = Some tbl"
    and "map_of tbl mt = Some mapping" and "map_of mapping backend = Some mb"
  shows "registered reg lib mt backend t = map_of mb t"
  using assms by (simp add: registered_def)


lemma create_register_returns:
  assumes "create_register env backend ow mt tasks lib cls reg = (None, reg1)"
  shows "\<exists>mb0. (\<forall>t. map_of mb0 t = registered reg lib mt backend t)
           \<and> fst (register_tasks env ow cls tasks mb0) = None
           \<and> (\<forall>t. registered reg1 lib mt backend t =
                    map_of (snd (register_tasks env ow cls tasks mb0)) t)"
proof (cases "map_of (LIBRARY_TO_SUPPORTED_MODEL_TYPES reg) lib")
  case None
  with assms show ?thesis by (simp add: create_register_def)
next
  case (Some tbl)
  define mapping where "mapping = (case map_of tbl mt of Some m \<Rightarrow> m | None \<Rightarrow> [])"
  define mb0 where "mb0 = (case map_of mapping backend of Some mb \<Rightarrow> mb | None \<Rightarrow> [])"
  define looped where "looped = register_tasks env ow cls tasks mb0"
  have before: "map_of mb0 t = registered reg lib mt backend t" for t
    by (simp add: registered_def Some mb0_def mapping_def split: option.splits)
  from assms have ok: "fst looped = None"
    and reg1: "reg1 = store_library lib
         (AList.update mt (AList.update backend (snd looped) mapping) tbl) reg"
    by (auto simp add: create_register_unfold [OF Some] Let_def mapping_def mb0_def looped_def
        split: option.splits simp del: register_tasks.simps)
  have "registered reg1 lib mt backend t = map_of (snd looped) t" for t
    by (simp add: reg1 registered_store_library [OF Some])
  with before ok show ?thesis
    unfolding looped_def by blast
qed

lemma create_register_raises_in_place:
  assumes "map_of (LIBRARY_TO_SUPPORTED_MODEL_TYPES reg) lib = Some tbl"
    and "map_of tbl mt = Some mapping" and "map_of mapping backend = Some mb"
    and "register_tasks env ow cls tasks mb = (Some e, mb')"
  shows "fst (create_register env backend ow mt tasks lib cls reg) = Some e
       \<and> registered (snd (create_register env backend ow mt tasks lib cls reg)) lib mt backend t
           = map_of mb' t"
  using assms
  by (simp add: create_register_unfold [OF assms(1)] registered_store_library [OF assms(1)]
      del: register_tasks.simps)

lemma create_register_keeps_entries:
  assumes "registered reg lib mt backend t \<noteq> None"
  shows "registered (snd (create_register env backend' ow mt' tasks lib' cls reg)) lib mt backend t
           \<noteq> None"
proof (cases "map_of (LIBRARY_TO_SUPPORTED_MODEL_TYPES reg) lib'")
  case None
  with assms show ?thesis by (simp add: create_register_def)
next
  case (Some tbl)
  define mapping where "mapping = (case map_of tbl mt' of Some m \<Rightarrow> m | None \<Rightarrow> [])"
  define mb0 where "mb0 = (case map_of mapping backend' of Some mb \<Rightarrow> mb | None \<Rightarrow> [])"
  define looped where "looped = register_tasks env ow cls tasks mb0"
  define linked where "linked = store_library lib'
         (AList.update mt' (AList.update backend' (snd looped) mapping) tbl) reg"
  have result: "snd (create_register env backend' ow mt' tasks lib' cls reg) \<in> {reg, linked}"
    by (simp add: create_register_unfold [OF Some] Let_def mapping_def mb0_def looped_def
        linked_def split: option.splits del: register_tasks.simps)
  have "registered linked lib mt backend t \<noteq> None"
  proof (cases "lib = lib' \<and> mt = mt'")
    case False
    with assms show ?thesis
      unfolding linked_def by (auto simp add: registered_store_library [OF Some])
  next
    case True
    with assms Some obtain m where m: "map_of tbl mt' = Some m"
      by (auto simp add: registered_def split: option.splits)
    then have mapping: "mapping = m" by (simp add: mapping_def)
    show ?thesis
    proof (cases "backend = backend'")
      case False
      with True mapping
      have "registered linked lib mt backend t =
              (case map_of m backend of None \<Rightarrow> None | Some b \<Rightarrow> map_of b t)"
        unfolding linked_def by (simp add: registered_store_library [OF Some])
      moreover from True Some m
      have "registered reg lib mt backend t =
              (case map_of m backend of None \<Rightarrow> None | Some b \<Rightarrow> map_of b t)"
        by (simp add: registered_def)
      ultimately show ?thesis using assms by simp
    next
      case same: True
      with assms True Some m obtain b where b: "map_of m backend' = Some b"
        and t: "map_of b t \<noteq> None"
        by (auto simp add: registered_def split: option.splits)
      from b mapping have "mb0 = b" by (simp add: mb0_def)
      with t have "map_of (snd looped) t \<noteq> None"
        unfolding looped_def by (simp add: register_tasks_keeps_keys)
      with True same show ?thesis
        unfolding linked_def by (simp add: registered_store_library [OF Some])
    qed
  qed
  with assms result show ?thesis by auto
qed

lemma apply_registrations_keeps_entries:
  "registered reg lib mt backend t \<noteq> None \<Longrightarrow>
   registered (apply_registrations env rs reg) lib mt backend t \<noteq> None"
proof (induction rs arbitrary: reg)
  case Nil
  then show ?case by (simp add: apply_registrations_def)
next
  case (Cons r rs)
  from create_register_keeps_entries [OF Cons.prems]
  have "registered (apply_registration env reg r) lib mt backend t \<noteq> None"
    by (simp add: apply_registration_def)
  from Cons.IH [OF this] show ?case by (simp add: apply_registrations_def)
qed

text \<open>
  C10: registration is not atomic over the task list.  When the entry for the model
  type and the backend is already in the table of the library, and the list runs
  without an exception up to an unknown task, the call raises the \<^verbatim>\<open>ValueError\<close> for the
  unknown task, and a task of that run that was not registered before is registered
  after the call all the same, with the constructor made from the decorated class.
\<close>

theorem registration_not_atomic:
  assumes "map_of (LIBRARY_TO_SUPPORTED_MODEL_TYPES reg) library_name = Some tbl"
    and "map_of tbl model_type = Some mapping"
    and "map_of mapping backend = Some mapping_backend"
    and "fst (register_tasks env overwrite_existing config_cls valid mapping_backend) = None"
    and "task \<in> set valid"
    and "registered reg library_name model_type backend task = None"
    and "replace ''-with-past'' [] unknown \<notin> set (get_all_tasks env)"
  shows "fst (create_register env backend overwrite_existing model_type (valid @ unknown # rest)
                library_name config_cls reg)
           = Some (ValueError (unknown_task_message env (replace ''-with-past'' [] unknown)))
       \<and> (\<exists>c. make_backend_config_constructor_for_task config_cls task = Inr c
              \<and> registered (snd (create_register env backend overwrite_existing model_type
                     (valid @ unknown # rest) library_name config_cls reg))
                   library_name model_type backend task = Some c)"
proof -
  from assms(6) have absent: "map_of mapping_backend task = None"
    by (simp add: registered_existing [OF assms(1-3)])
  from register_tasks_stores [OF assms(4,5)] absent
  obtain c where c: "make_backend_config_constructor_for_task config_cls task = Inr c"
    and stored: "map_of (snd (register_tasks env overwrite_existing config_cls valid
                    mapping_backend)) task = Some c"
    by blast
  note raised = register_tasks_raises_later [OF assms(4,7), of rest]
  from create_register_raises_in_place [OF assms(1-3) raised, where t=task] c stored
  show ?thesis by simp
qed

lemma text_classification_known:
  "replace ''-with-past'' [] ''text-classification'' \<in> set (get_all_tasks sample_environment)"
proof -
  have "torch_available sample_environment" by (simp add: sample_environment_def)
  from torch_task_names [OF this] show ?thesis
    by (simp add: replace_Nil replace_Cons startswith_def)
qed

lemma text_classification_constructor:
  "make_backend_config_constructor_for_task sample_config_cls ''text-classification'' =
     Inr \<lparr>func = sample_config_cls, kwds = [(''task'', PyStr ''text-classification'')]\<rparr>"
  by (simp add: make_backend_config_constructor_for_task_def startswith_def)

lemma sample_loop:
  "register_tasks sample_environment False sample_config_cls [''text-classification'']
     [(''feature-extraction'',
          \<lparr>func = \<lparr>cls_name = ''BertOnnxConfig'', SUPPORTS_PAST = False\<rparr>,
           kwds = [(''task'', PyStr ''feature-extraction'')]\<rparr>)] =
   (None, [(''feature-extraction'',
          \<lparr>func = \<lparr>cls_name = ''BertOnnxConfig'', SUPPORTS_PAST = False\<rparr>,
           kwds = [(''task'', PyStr ''feature-extraction'')]\<rparr>),
      (''text-classification'',
          \<lparr>func = sample_config_cls, kwds = [(''task'', PyStr ''text-classification'')]\<rparr>)])"
  using text_classification_known
  by (simp add: Let_def text_classification_constructor)


theorem registration_not_atomic_witness:
  "map_of (LIBRARY_TO_SUPPORTED_MODEL_TYPES bert_registry) ''transformers''
     = Some (SUPPORTED_MODEL_TYPE bert_registry)
   \<and> registered bert_registry ''transformers'' ''bert'' ''onnx'' ''feature-extraction'' \<noteq> None
   \<and> registered bert_registry ''transformers'' ''bert'' ''onnx'' ''text-classification'' = None
   \<and> replace ''-with-past'' [] ''bogus-task'' \<notin> set (get_all_tasks sample_environment)
   \<and> fst (create_register sample_environment ''onnx'' False ''bert''
             [''text-classification'', ''bogus-task''] ''transformers'' sample_config_cls
             bert_registry)
        = Some (ValueError (unknown_task_message sample_environment ''bogus-task''))
   \<and> registered (snd (create_register sample_environment ''onnx'' False ''bert''
             [''text-classification'', ''bogus-task''] ''transformers'' sample_config_cls
             bert_registry)) ''transformers'' ''bert'' ''onnx'' ''text-classification''
        = Some \<lparr>func = sample_config_cls, kwds = [(''task'', PyStr ''text-classification'')]\<rparr>"
proof -
  let ?mb = "[(''feature-extraction'',
          \<lparr>func = \<lparr>cls_name = ''BertOnnxConfig'', SUPPORTS_PAST = False\<rparr>,
           kwds = [(''task'', PyStr ''feature-extraction'')]\<rparr>)]"
  have h1: "map_of (LIBRARY_TO_SUPPORTED_MODEL_TYPES bert_registry) ''transformers''
     = Some (SUPPORTED_MODEL_TYPE bert_registry)"
    by (simp add: LIBRARY_TO_SUPPORTED_MODEL_TYPES_def)
  have h2: "map_of (SUPPORTED_MODEL_TYPE bert_registry) ''bert'' = Some [(''onnx'', ?mb)]"
    by (simp add: bert_registry_def empty_registry_def)
  have h3: "map_of [(''onnx'', ?mb)] ''onnx'' = Some ?mb"
    by simp
  have h4: "fst (register_tasks sample_environment False sample_config_cls
                   [''text-classification''] ?mb) = None"
    by (simp only: sample_loop fst_conv)
  have h5: "''text-classification'' \<in> set [''text-classification'']"
    by simp
  have h6: "registered bert_registry ''transformers'' ''bert'' ''onnx'' ''text-classification'' = None"
    by (simp add: registered_existing [OF h1 h2 h3])
  have h7: "replace ''-with-past'' [] ''bogus-task'' \<notin> set (get_all_tasks sample_environment)"
    using bogus_task_unknown [of sample_environment] by (simp add: bogus_task_normalized)
  have present: "registered bert_registry ''transformers'' ''bert'' ''onnx'' ''feature-extraction'' \<noteq> None"
    by (simp add: registered_existing [OF h1 h2 h3])
  from registration_not_atomic [OF h1 h2 h3 h4 h5 h6 h7, of "[]"]
  show ?thesis
    using h1 h6 h7 present
    by (simp add: text_classification_constructor bogus_task_normalized
          del: register_tasks.simps)
qed

text \<open>
  C3: two successful registrations that both list a task, for the same library, model
  type and backend.  With \<^verbatim>\<open>overwrite_existing=False\<close> the constructor in the table after
  the second call is the one that was there after the first call (the one made from the
  first class, when the task was not registered before).  With
  \<^verbatim>\<open>overwrite_existing=True\<close> the first call stores the constructor made from the first
  class and the second call replaces it by the one made from the second class.
\<close>

theorem register_twice:
  assumes "create_register env backend overwrite_existing model_type tasks1 library_name cls1 reg
             = (None, reg1)"
    and "task \<in> set tasks1"
    and "create_register env backend overwrite_existing model_type tasks2 library_name cls2 reg1
             = (None, reg2)"
    and "task \<in> set tasks2"
  shows "if overwrite_existing
         then (\<exists>c1. make_backend_config_constructor_for_task cls1 task = Inr c1
                   \<and> registered reg1 library_name model_type backend task = Some c1)
            \<and> (\<exists>c2. make_backend_config_constructor_for_task cls2 task = Inr c2
                   \<and> registered reg2 library_name model_type backend task = Some c2)
         else registered reg1 library_name model_type backend task \<noteq> None
            \<and> registered reg2 library_name model_type backend task
                = registered reg1 library_name model_type backend task
            \<and> (registered reg library_name model_type backend task = None \<longrightarrow>
                 (\<exists>c1. make_backend_config_constructor_for_task cls1 task = Inr c1
                   \<and> registered reg1 library_name model_type backend task = Some c1))"
proof -
  from create_register_returns [OF assms(1)] obtain mb0
    where before0: "\<And>t. map_of mb0 t = registered reg library_name model_type backend t"
      and ok0: "fst (register_tasks env overwrite_existing cls1 tasks1 mb0) = None"
      and after0: "\<And>t. registered reg1 library_name model_type backend t =
                    map_of (snd (register_tasks env overwrite_existing cls1 tasks1 mb0)) t"
    by blast
  from create_register_returns [OF assms(3)] obtain mb1
    where before1: "\<And>t. map_of mb1 t = registered reg1 library_name model_type backend t"
      and ok1: "fst (register_tasks env overwrite_existing cls2 tasks2 mb1) = None"
      and after1: "\<And>t. registered reg2 library_name model_type backend t =
                    map_of (snd (register_tasks env overwrite_existing cls2 tasks2 mb1)) t"
    by blast
  show ?thesis
  proof (cases overwrite_existing)
    case True
    from register_tasks_stores [OF ok0 assms(2)] True after0
    have "\<exists>c1. make_backend_config_constructor_for_task cls1 task = Inr c1
                   \<and> registered reg1 library_name model_type backend task = Some c1"
      by simp
    moreover from register_tasks_stores [OF ok1 assms(4)] True after1
    have "\<exists>c2. make_backend_config_constructor_for_task cls2 task = Inr c2
                   \<and> registered reg2 library_name model_type backend task = Some c2"
      by simp
    ultimately show ?thesis using True by simp
  next
    case False
    have fresh: "\<exists>c1. make_backend_config_constructor_for_task cls1 task = Inr c1
                   \<and> registered reg1 library_name model_type backend task = Some c1"
      if "registered reg library_name model_type backend task = None"
      using register_tasks_stores [OF ok0 assms(2)] that before0 after0 by simp
    have first: "registered reg1 library_name model_type backend task \<noteq> None"
    proof (cases "registered reg library_name model_type backend task")
      case None
      with fresh show ?thesis by auto
    next
      case (Some c)
      with before0 have "map_of mb0 task \<noteq> None" by simp
      from register_tasks_keeps_keys [OF this] after0 show ?thesis by simp
    qed
    then obtain c where c: "registered reg1 library_name model_type backend task = Some c"
      by auto
    with before1 have "map_of mb1 task = Some c" by simp
    from register_tasks_keeps_value [OF this, of overwrite_existing cls2 env tasks2] False
    have "registered reg2 library_name model_type backend task = Some c"
      by (simp add: after1)
    with c first fresh False show ?thesis by simp
  qed
qed

lemma other_text_classification_constructor:
  "make_backend_config_constructor_for_task other_config_cls ''text-classification'' =
     Inr \<lparr>func = other_config_cls, kwds = [(''task'', PyStr ''text-classification'')]\<rparr>"
  by (simp add: make_backend_config_constructor_for_task_def startswith_def)

lemma sample_first_registration:
  "create_register sample_environment ''onnx'' ow ''bert'' [''text-classification'']
     ''transformers'' sample_config_cls empty_registry =
   (None, empty_registry\<lparr>SUPPORTED_MODEL_TYPE :=
      [(''bert'', [(''onnx'', [(''text-classification'',
          \<lparr>func = sample_config_cls, kwds = [(''task'', PyStr ''text-classification'')]\<rparr>)])])]\<rparr>)"
  using text_classification_known
  by (simp add: create_register_def LIBRARY_TO_SUPPORTED_MODEL_TYPES_def empty_registry_def
      store_library_def Let_def text_classification_constructor)

lemma sample_second_registration:
  "create_register sample_environment ''onnx'' ow ''bert'' [''text-classification'']
     ''transformers'' other_config_cls
     (empty_registry\<lparr>SUPPORTED_MODEL_TYPE :=
      [(''bert'', [(''onnx'', [(''text-classification'',
          \<lparr>func = sample_config_cls, kwds = [(''task'', PyStr ''text-classification'')]\<rparr>)])])]\<rparr>) =
   (None, empty_registry\<lparr>SUPPORTED_MODEL_TYPE :=
      [(''bert'', [(''onnx'', [(''text-classification'',
          \<lparr>func = (if ow then other_config_cls else sample_config_cls),
           kwds = [(''task'', PyStr ''text-classification'')]\<rparr>)])])]\<rparr>)"
  using text_classification_known
  by (simp add: create_register_def LIBRARY_TO_SUPPORTED_MODEL_TYPES_def empty_registry_def
      store_library_def Let_def other_text_classification_constructor)


theorem register_twice_witness:
  "create_register sample_environment ''onnx'' False ''bert'' [''text-classification'']
     ''transformers'' sample_config_cls empty_registry = (None, (empty_registry\<lparr>SUPPORTED_MODEL_TYPE :=
        [(''bert'', [(''onnx'', [(''text-classification'',
          \<lparr>func = sample_config_cls, kwds = [(''task'', PyStr ''text-classification'')]\<rparr>)])])]\<rparr>))
   \<and> create_register sample_environment ''onnx'' False ''bert'' [''text-classification'']
     ''transformers'' other_config_cls (empty_registry\<lparr>SUPPORTED_MODEL_TYPE :=
        [(''bert'', [(''onnx'', [(''text-classification'',
          \<lparr>func = sample_config_cls, kwds = [(''task'', PyStr ''text-classification'')]\<rparr>)])])]\<rparr>) = (None, (empty_registry\<lparr>SUPPORTED_MODEL_TYPE :=
        [(''bert'', [(''onnx'', [(''text-classification'',
          \<lparr>func = sample_config_cls, kwds = [(''task'', PyStr ''text-classification'')]\<rparr>)])])]\<rparr>))
   \<and> registered (empty_registry\<lparr>SUPPORTED_MODEL_TYPE :=
        [(''bert'', [(''onnx'', [(''text-classification'',
          \<lparr>func = sample_config_cls, kwds = [(''task'', PyStr ''text-classification'')]\<rparr>)])])]\<rparr>) ''transformers'' ''bert'' ''onnx'' ''text-classification''
       = Some \<lparr>func = sample_config_cls, kwds = [(''task'', PyStr ''text-classification'')]\<rparr>
   \<and> create_register sample_environment ''onnx'' True ''bert'' [''text-classification'']
     ''transformers'' sample_config_cls empty_registry = (None, (empty_registry\<lparr>SUPPORTED_MODEL_TYPE :=
        [(''bert'', [(''onnx'', [(''text-classification'',
          \<lparr>func = sample_config_cls, kwds = [(''task'', PyStr ''text-classification'')]\<rparr>)])])]\<rparr>))
   \<and> create_register sample_environment ''onnx'' True ''bert'' [''text-classification'']
     ''transformers'' other_config_cls (empty_registry\<lparr>SUPPORTED_MODEL_TYPE :=
        [(''bert'', [(''onnx'', [(''text-classification'',
          \<lparr>func = sample_config_cls, kwds = [(''task'', PyStr ''text-classification'')]\<rparr>)])])]\<rparr>) = (None, (empty_registry\<lparr>SUPPORTED_MODEL_TYPE :=
        [(''bert'', [(''onnx'', [(''text-classification'',
          \<lparr>func = other_config_cls, kwds = [(''task'', PyStr ''text-classification'')]\<rparr>)])])]\<rparr>))
   \<and> registered (empty_registry\<lparr>SUPPORTED_MODEL_TYPE :=
        [(''bert'', [(''onnx'', [(''text-classification'',
          \<lparr>func = other_config_cls, kwds = [(''task'', PyStr ''text-classification'')]\<rparr>)])])]\<rparr>) ''transformers'' ''bert'' ''onnx'' ''text-classification''
       = Some \<lparr>func = other_config_cls, kwds = [(''task'', PyStr ''text-classification'')]\<rparr>"
proof -
  have t: "''text-classification'' \<in> set [''text-classification'']" by simp
  have keep1: "create_register sample_environment ''onnx'' False ''bert'' [''text-classification'']
     ''transformers'' sample_config_cls empty_registry = (None, (empty_registry\<lparr>SUPPORTED_MODEL_TYPE :=
        [(''bert'', [(''onnx'', [(''text-classification'',
          \<lparr>func = sample_config_cls, kwds = [(''task'', PyStr ''text-classification'')]\<rparr>)])])]\<rparr>))"
    by (rule sample_first_registration)
  have keep2: "create_register sample_environment ''onnx'' False ''bert'' [''text-classification'']
     ''transformers'' other_config_cls (empty_registry\<lparr>SUPPORTED_MODEL_TYPE :=
        [(''bert'', [(''onnx'', [(''text-classification'',
          \<lparr>func = sample_config_cls, kwds = [(''task'', PyStr ''text-classification'')]\<rparr>)])])]\<rparr>) = (None, (empty_registry\<lparr>SUPPORTED_MODEL_TYPE :=
        [(''bert'', [(''onnx'', [(''text-classification'',
          \<lparr>func = sample_config_cls, kwds = [(''task'', PyStr ''text-classification'')]\<rparr>)])])]\<rparr>))"
    using sample_second_registration [of False] by simp
  have over1: "create_register sample_environment ''onnx'' True ''bert'' [''text-classification'']
     ''transformers'' sample_config_cls empty_registry = (None, (empty_registry\<lparr>SUPPORTED_MODEL_TYPE :=
        [(''bert'', [(''onnx'', [(''text-classification'',
          \<lparr>func = sample_config_cls, kwds = [(''task'', PyStr ''text-classification'')]\<rparr>)])])]\<rparr>))"
    by (rule sample_first_registration)
  have over2: "create_register sample_environment ''onnx'' True ''bert'' [''text-classification'']
     ''transformers'' other_config_cls (empty_registry\<lparr>SUPPORTED_MODEL_TYPE :=
        [(''bert'', [(''onnx'', [(''text-classification'',
          \<lparr>func = sample_config_cls, kwds = [(''task'', PyStr ''text-classification'')]\<rparr>)])])]\<rparr>) = (None, (empty_registry\<lparr>SUPPORTED_MODEL_TYPE :=
        [(''bert'', [(''onnx'', [(''text-classification'',
          \<lparr>func = other_config_cls, kwds = [(''task'', PyStr ''text-classification'')]\<rparr>)])])]\<rparr>))"
    using sample_second_registration [of True] by simp
  have fresh: "registered empty_registry ''transformers'' ''bert'' ''onnx'' ''text-classification'' = None"
    by (simp add: registered_def LIBRARY_TO_SUPPORTED_MODEL_TYPES_def empty_registry_def)
  from register_twice [OF keep1 t keep2 t] fresh
  have "registered (empty_registry\<lparr>SUPPORTED_MODEL_TYPE :=
        [(''bert'', [(''onnx'', [(''text-classification'',
          \<lparr>func = sample_config_cls, kwds = [(''task'', PyStr ''text-classification'')]\<rparr>)])])]\<rparr>) ''transformers'' ''bert'' ''onnx'' ''text-classification''
       = Some \<lparr>func = sample_config_cls, kwds = [(''task'', PyStr ''text-classification'')]\<rparr>"
    by (simp add: text_classification_constructor)
  moreover from register_twice [OF over1 t over2 t]
  have "registered (empty_registry\<lparr>SUPPORTED_MODEL_TYPE :=
        [(''bert'', [(''onnx'', [(''text-classification'',
          \<lparr>func = other_config_cls, kwds = [(''task'', PyStr ''text-classification'')]\<rparr>)])])]\<rparr>) ''transformers'' ''bert'' ''onnx'' ''text-classification''
       = Some \<lparr>func = other_config_cls, kwds = [(''task'', PyStr ''text-classification'')]\<rparr>"
    by (simp add: other_text_classification_constructor)
  ultimately show ?thesis
    using keep1 keep2 over1 over2 by simp
qed

subsection \<open>Looking up what was registered\<close>

lemma registeredE:
  assumes "registered reg lib mt backend task = Some c"
  obtains tbl mapping mb where "map_of (LIBRARY_TO_SUPPORTED_MODEL_TYPES reg) lib = Some tbl"
    and "map_of tbl mt = Some mapping" and "map_of mapping backend = Some mb"
    and "map_of mb task = Some c"
  using assms by (auto simp add: registered_def split: option.splits)

text \<open>
  A model type that is its own normal form (lower case, hyphens for underscores) and is in
  the table of the library is looked up as it is.
\<close>

lemma supported_tasks_of_normal_model_type:
  assumes "map_of (LIBRARY_TO_SUPPORTED_MODEL_TYPES reg) lib = Some tbl"
    and "map_of tbl mt = Some mapping" and "map_of mapping backend = Some mb"
    and "replace ''_'' ''-'' (lower mt) = mt"
  shows "get_supported_tasks_for_model_type reg mt backend model_name (Some lib) = Inr mb"
  using assms by (simp add: get_supported_tasks_for_model_type_def subscript_def Let_def)

lemma lookup_registered:
  assumes "registered reg lib mt backend task = Some c"
    and "replace ''_'' ''-'' (lower mt) = mt"
  shows "get_exporter_config_constructor reg backend model task (Some mt) model_name None (Some lib)
           = Inr c"
proof -
  from assms(1) obtain tbl mapping mb
    where tbl: "map_of (LIBRARY_TO_SUPPORTED_MODEL_TYPES reg) lib = Some tbl"
      and mapping: "map_of tbl mt = Some mapping" and mb: "map_of mapping backend = Some mb"
      and c: "map_of mb task = Some c"
    by (rule registeredE)
  note tasks = supported_tasks_of_normal_model_type [OF tbl mapping mb assms(2)]
  show ?thesis
    by (simp add: get_exporter_config_constructor_def subscript_def tasks tbl mapping mb c)
qed

lemma registration_registers:
  assumes "create_register env backend ow mt tasks lib cls reg = (None, reg1)"
    and "task \<in> set tasks"
  shows "registered reg1 lib mt backend task \<noteq> None"
proof -
  from create_register_returns [OF assms(1)] obtain mb0
    where before: "\<And>t. map_of mb0 t = registered reg lib mt backend t"
      and ok: "fst (register_tasks env ow cls tasks mb0) = None"
      and after: "\<And>t. registered reg1 lib mt backend t =
                    map_of (snd (register_tasks env ow cls tasks mb0)) t"
    by blast
  show ?thesis
  proof (cases "map_of mb0 task")
    case None
    with register_tasks_stores [OF ok assms(2)] after show ?thesis by auto
  next
    case (Some c)
    then have "map_of mb0 task \<noteq> None" by simp
    from register_tasks_keeps_keys [OF this] after show ?thesis by simp
  qed
qed

text \<open>
  C1, amended: for every library, model type, task and backend registered by a
  successful application of the decorator, where the model type is in the normal form
  that the lookup gives it (lower case, with hyphens for underscores), every later call
  \<^verbatim>\<open>get_exporter_config_constructor(backend, model_type=model_type, task=task,
  library_name=library)\<close>, also after any further applications of the decorator, returns
  the constructor that the table holds for them and does not raise.
\<close>

theorem registered_then_found:
  assumes "create_register env backend overwrite_existing model_type tasks library_name config_cls
             reg = (None, reg1)"
    and "task \<in> set tasks"
    and "replace ''_'' ''-'' (lower model_type) = model_type"
  shows "\<exists>c. registered (apply_registrations env later reg1) library_name model_type backend task
               = Some c
           \<and> get_exporter_config_constructor (apply_registrations env later reg1) backend None task
               (Some model_type) None None (Some library_name) = Inr c"
proof -
  from registration_registers [OF assms(1,2)]
  have "registered reg1 library_name model_type backend task \<noteq> None" .
  from apply_registrations_keeps_entries [OF this, of env later]
  obtain c where c: "registered (apply_registrations env later reg1) library_name model_type
      backend task = Some c"
    by auto
  from lookup_registered [OF c assms(3)] c show ?thesis by blast
qed

lemma lower_my_model: "lower ''my_model'' = ''my_model''" "lower ''bert'' = ''bert''"
  by (simp_all add: lower_def lower_char_def)

lemma normal_my_model: "replace ''_'' ''-'' (lower ''my_model'') = ''my-model''"
  "replace ''_'' ''-'' (lower ''bert'') = ''bert''"
  by (simp_all add: lower_my_model replace_Nil replace_Cons startswith_def)


theorem registered_then_found_witness:
  "create_register sample_environment ''onnx'' False ''bert'' [''text-classification'']
     ''transformers'' sample_config_cls empty_registry = (None, (empty_registry\<lparr>SUPPORTED_MODEL_TYPE :=
        [(''bert'', [(''onnx'', [(''text-classification'',
          \<lparr>func = sample_config_cls, kwds = [(''task'', PyStr ''text-classification'')]\<rparr>)])])]\<rparr>))
   \<and> replace ''_'' ''-'' (lower ''bert'') = ''bert''
   \<and> get_exporter_config_constructor (empty_registry\<lparr>SUPPORTED_MODEL_TYPE :=
        [(''bert'', [(''onnx'', [(''text-classification'',
          \<lparr>func = sample_config_cls, kwds = [(''task'', PyStr ''text-classification'')]\<rparr>)])])]\<rparr>) ''onnx'' None ''text-classification'' (Some ''bert'') None
       None (Some ''transformers'')
       = Inr \<lparr>func = sample_config_cls, kwds = [(''task'', PyStr ''text-classification'')]\<rparr>
   \<and> get_exporter_config_constructor (apply_registrations sample_environment [\<lparr>reg_backend = ''onnx'', reg_overwrite_existing = True, reg_model_type = ''bert'',
         reg_supported_tasks = [''text-classification''], reg_library_name = ''transformers'',
         reg_config_cls = other_config_cls\<rparr>] (empty_registry\<lparr>SUPPORTED_MODEL_TYPE :=
        [(''bert'', [(''onnx'', [(''text-classification'',
          \<lparr>func = sample_config_cls, kwds = [(''task'', PyStr ''text-classification'')]\<rparr>)])])]\<rparr>)) ''onnx''
       None ''text-classification'' (Some ''bert'') None None (Some ''transformers'')
       = Inr \<lparr>func = other_config_cls, kwds = [(''task'', PyStr ''text-classification'')]\<rparr>"
proof -
  have t: "''text-classification'' \<in> set [''text-classification'']" by simp
  have first: "create_register sample_environment ''onnx'' False ''bert'' [''text-classification'']
     ''transformers'' sample_config_cls empty_registry = (None, (empty_registry\<lparr>SUPPORTED_MODEL_TYPE :=
        [(''bert'', [(''onnx'', [(''text-classification'',
          \<lparr>func = sample_config_cls, kwds = [(''task'', PyStr ''text-classification'')]\<rparr>)])])]\<rparr>))"
    by (rule sample_first_registration)
  note normal = normal_my_model(2)
  have now: "registered (apply_registrations sample_environment [] (empty_registry\<lparr>SUPPORTED_MODEL_TYPE :=
        [(''bert'', [(''onnx'', [(''text-classification'',
          \<lparr>func = sample_config_cls, kwds = [(''task'', PyStr ''text-classification'')]\<rparr>)])])]\<rparr>))
       ''transformers'' ''bert'' ''onnx'' ''text-classification''
     = Some \<lparr>func = sample_config_cls, kwds = [(''task'', PyStr ''text-classification'')]\<rparr>"
    by (simp add: apply_registrations_def registered_def LIBRARY_TO_SUPPORTED_MODEL_TYPES_def
          empty_registry_def)
  have later: "registered (apply_registrations sample_environment [\<lparr>reg_backend = ''onnx'', reg_overwrite_existing = True, reg_model_type = ''bert'',
         reg_supported_tasks = [''text-classification''], reg_library_name = ''transformers'',
         reg_config_cls = other_config_cls\<rparr>] (empty_registry\<lparr>SUPPORTED_MODEL_TYPE :=
        [(''bert'', [(''onnx'', [(''text-classification'',
          \<lparr>func = sample_config_cls, kwds = [(''task'', PyStr ''text-classification'')]\<rparr>)])])]\<rparr>))
       ''transformers'' ''bert'' ''onnx'' ''text-classification''
     = Some \<lparr>func = other_config_cls, kwds = [(''task'', PyStr ''text-classification'')]\<rparr>"
  proof -
    have "apply_registrations sample_environment [\<lparr>reg_backend = ''onnx'', reg_overwrite_existing = True, reg_model_type = ''bert'',
         reg_supported_tasks = [''text-classification''], reg_library_name = ''transformers'',
         reg_config_cls = other_config_cls\<rparr>] (empty_registry\<lparr>SUPPORTED_MODEL_TYPE :=
        [(''bert'', [(''onnx'', [(''text-classification'',
          \<lparr>func = sample_config_cls, kwds = [(''task'', PyStr ''text-classification'')]\<rparr>)])])]\<rparr>) = (empty_registry\<lparr>SUPPORTED_MODEL_TYPE :=
        [(''bert'', [(''onnx'', [(''text-classification'',
          \<lparr>func = other_config_cls, kwds = [(''task'', PyStr ''text-classification'')]\<rparr>)])])]\<rparr>)"
      by (simp add: apply_registrations_def apply_registration_def
            sample_second_registration [of True])
    then show ?thesis
      by (simp add: registered_def LIBRARY_TO_SUPPORTED_MODEL_TYPES_def empty_registry_def)
  qed
  from registered_then_found [OF first t normal, of "[]"] now
  have "get_exporter_config_constructor (empty_registry\<lparr>SUPPORTED_MODEL_TYPE :=
        [(''bert'', [(''onnx'', [(''text-classification'',
          \<lparr>func = sample_config_cls, kwds = [(''task'', PyStr ''text-classification'')]\<rparr>)])])]\<rparr>) ''onnx'' None ''text-classification'' (Some ''bert'') None
       None (Some ''transformers'')
       = Inr \<lparr>func = sample_config_cls, kwds = [(''task'', PyStr ''text-classification'')]\<rparr>"
    by (simp add: apply_registrations_def)
  moreover from registered_then_found [OF first t normal, of "[\<lparr>reg_backend = ''onnx'', reg_overwrite_existing = True, reg_model_type = ''bert'',
         reg_supported_tasks = [''text-classification''], reg_library_name = ''transformers'',
         reg_config_cls = other_config_cls\<rparr>]"] later
  have "get_exporter_config_constructor (apply_registrations sample_environment [\<lparr>reg_backend = ''onnx'', reg_overwrite_existing = True, reg_model_type = ''bert'',
         reg_supported_tasks = [''text-classification''], reg_library_name = ''transformers'',
         reg_config_cls = other_config_cls\<rparr>] (empty_registry\<lparr>SUPPORTED_MODEL_TYPE :=
        [(''bert'', [(''onnx'', [(''text-classification'',
          \<lparr>func = sample_config_cls, kwds = [(''task'', PyStr ''text-classification'')]\<rparr>)])])]\<rparr>)) ''onnx''
       None ''text-classification'' (Some ''bert'') None None (Some ''transformers'')
       = Inr \<lparr>func = other_config_cls, kwds = [(''task'', PyStr ''text-classification'')]\<rparr>"
    by simp
  ultimately show ?thesis using first normal by simp
qed

text \<open>
  The claim as stated fails for a model type that is not in normal form:
  \<^verbatim>\<open>"my_model"\<close> is registered under that key, and the lookup, which searches for
  \<^verbatim>\<open>"my-model"\<close>, raises \<^verbatim>\<open>KeyError\<close>.
\<close>

lemma sample_my_model_registration:
  "create_register sample_environment ''onnx'' False ''my_model'' [''text-classification'']
     ''transformers'' sample_config_cls empty_registry = (None, (empty_registry\<lparr>SUPPORTED_MODEL_TYPE :=
        [(''my_model'', [(''onnx'', [(''text-classification'',
          \<lparr>func = sample_config_cls, kwds = [(''task'', PyStr ''text-classification'')]\<rparr>)])])]\<rparr>))"
  using text_classification_known
  by (simp add: create_register_def LIBRARY_TO_SUPPORTED_MODEL_TYPES_def empty_registry_def
      store_library_def Let_def text_classification_constructor)

theorem registered_not_found_counterexample:
  "create_register sample_environment ''onnx'' False ''my_model'' [''text-classification'']
     ''transformers'' sample_config_cls empty_registry = (None, (empty_registry\<lparr>SUPPORTED_MODEL_TYPE :=
        [(''my_model'', [(''onnx'', [(''text-classification'',
          \<lparr>func = sample_config_cls, kwds = [(''task'', PyStr ''text-classification'')]\<rparr>)])])]\<rparr>))
   \<and> registered (empty_registry\<lparr>SUPPORTED_MODEL_TYPE :=
        [(''my_model'', [(''onnx'', [(''text-classification'',
          \<lparr>func = sample_config_cls, kwds = [(''task'', PyStr ''text-classification'')]\<rparr>)])])]\<rparr>) ''transformers'' ''my_model'' ''onnx'' ''text-classification''
       = Some \<lparr>func = sample_config_cls, kwds = [(''task'', PyStr ''text-classification'')]\<rparr>
   \<and> get_exporter_config_constructor (empty_registry\<lparr>SUPPORTED_MODEL_TYPE :=
        [(''my_model'', [(''onnx'', [(''text-classification'',
          \<lparr>func = sample_config_cls, kwds = [(''task'', PyStr ''text-classification'')]\<rparr>)])])]\<rparr>) ''onnx'' None ''text-classification'' (Some ''my_model'')
       None None (Some ''transformers'')
       = Inl (KeyError (''my-model is not supported yet for transformers. Only ''
           @ py_list_repr [''my_model'']
           @ '' are supported for the library transformers. If you want to support my-model please propose a PR or open up an issue.''))"
proof -
  have "get_supported_tasks_for_model_type (empty_registry\<lparr>SUPPORTED_MODEL_TYPE :=
        [(''my_model'', [(''onnx'', [(''text-classification'',
          \<lparr>func = sample_config_cls, kwds = [(''task'', PyStr ''text-classification'')]\<rparr>)])])]\<rparr>) ''my_model'' ''onnx'' None (Some ''transformers'')
       = Inl (KeyError (''my-model is not supported yet for transformers. Only ''
           @ py_list_repr [''my_model'']
           @ '' are supported for the library transformers. If you want to support my-model please propose a PR or open up an issue.''))"
    by (simp add: get_supported_tasks_for_model_type_def subscript_def Let_def normal_my_model
          LIBRARY_TO_SUPPORTED_MODEL_TYPES_def empty_registry_def MODEL_TYPE_FOR_DEFAULT_CONFIG_def)
  then have "get_exporter_config_constructor (empty_registry\<lparr>SUPPORTED_MODEL_TYPE :=
        [(''my_model'', [(''onnx'', [(''text-classification'',
          \<lparr>func = sample_config_cls, kwds = [(''task'', PyStr ''text-classification'')]\<rparr>)])])]\<rparr>) ''onnx'' None ''text-classification'' (Some ''my_model'')
       None None (Some ''transformers'')
       = Inl (KeyError (''my-model is not supported yet for transformers. Only ''
           @ py_list_repr [''my_model'']
           @ '' are supported for the library transformers. If you want to support my-model please propose a PR or open up an issue.''))"
    by (simp add: get_exporter_config_constructor_def subscript_def
          LIBRARY_TO_SUPPORTED_MODEL_TYPES_def empty_registry_def)
  moreover have "registered (empty_registry\<lparr>SUPPORTED_MODEL_TYPE :=
        [(''my_model'', [(''onnx'', [(''text-classification'',
          \<lparr>func = sample_config_cls, kwds = [(''task'', PyStr ''text-classification'')]\<rparr>)])])]\<rparr>) ''transformers'' ''my_model'' ''onnx'' ''text-classification''
       = Some \<lparr>func = sample_config_cls, kwds = [(''task'', PyStr ''text-classification'')]\<rparr>"
    by (simp add: registered_def LIBRARY_TO_SUPPORTED_MODEL_TYPES_def empty_registry_def)
  ultimately show ?thesis using sample_my_model_registration by simp
qed

subsection \<open>The default model type\<close>

text \<open>
  A model type that is not a key of the table of a library with a default model type,
  and whose normal form is not a key either or is the default itself, gets the
  constructor of the default model type.
\<close>

lemma default_model_type_fallback:
  assumes tbl: "map_of (LIBRARY_TO_SUPPORTED_MODEL_TYPES reg) lib = Some tbl"
    and d: "map_of MODEL_TYPE_FOR_DEFAULT_CONFIG lib = Some d"
    and raw: "map_of tbl mt = None"
    and norm: "map_of tbl (replace ''_'' ''-'' (lower mt)) = None \<or> replace ''_'' ''-'' (lower mt) = d"
    and mapping: "map_of tbl d = Some mapping"
    and mb: "map_of mapping exporter = Some mb"
    and c: "map_of mb task = Some c"
  shows "get_exporter_config_constructor reg exporter model task (Some mt) model_name None (Some lib)
           = Inr c"
proof -
  have tasks: "get_supported_tasks_for_model_type reg mt exporter model_name (Some lib) = Inr mb"
    using norm
  proof
    assume "map_of tbl (replace ''_'' ''-'' (lower mt)) = None"
    then show ?thesis
      by (simp add: get_supported_tasks_for_model_type_def subscript_def Let_def tbl d mapping mb)
  next
    assume "replace ''_'' ''-'' (lower mt) = d"
    then show ?thesis
      by (simp add: get_supported_tasks_for_model_type_def subscript_def Let_def tbl d mapping mb)
  qed
  show ?thesis
    by (simp add: get_exporter_config_constructor_def subscript_def tasks tbl d raw mapping mb c)
qed

lemma image_classification_constructor:
  "make_backend_config_constructor_for_task cls ''image-classification'' =
     Inr \<lparr>func = cls, kwds = [(''task'', PyStr ''image-classification'')]\<rparr>"
  by (simp add: make_backend_config_constructor_for_task_def startswith_def)

lemma initial_timm_table:
  assumes "initial_TIMM_SUPPORTED_MODEL_TYPE env = Inr tbl" and "onnx_available env"
  shows "\<exists>cls. model_configs env ''onnx'' ''TimmDefaultOnnxConfig'' = Inr cls
          \<and> tbl = [(''default-timm-config'', [(''onnx'', [(''image-classification'',
                 \<lparr>func = cls, kwds = [(''task'', PyStr ''image-classification'')]\<rparr>)])])]"
  using assms
  by (cases "model_configs env ''onnx'' ''TimmDefaultOnnxConfig''")
     (auto simp add: initial_TIMM_SUPPORTED_MODEL_TYPE_def supported_tasks_mapping_def
        is_backend_available_def image_classification_constructor)

text \<open>
  On the table of the timm library as the class body builds it where the ONNX exporter
  is installed, every model type that is not a key gets the constructor of
  \<^verbatim>\<open>"default-timm-config"\<close> for the task \<^verbatim>\<open>"image-classification"\<close>: the only key is the
  default model type itself.
\<close>

lemma timm_default_fallback_initial:
  assumes "initial_TIMM_SUPPORTED_MODEL_TYPE env = Inr (TIMM_SUPPORTED_MODEL_TYPE reg)"
    and "onnx_available env"
    and "map_of (TIMM_SUPPORTED_MODEL_TYPE reg) model_type = None"
  shows "\<exists>cls. model_configs env ''onnx'' ''TimmDefaultOnnxConfig'' = Inr cls
           \<and> registered reg ''timm'' ''default-timm-config'' ''onnx'' ''image-classification''
               = Some \<lparr>func = cls, kwds = [(''task'', PyStr ''image-classification'')]\<rparr>
           \<and> get_exporter_config_constructor reg ''onnx'' None ''image-classification''
                (Some model_type) None None (Some ''timm'')
               = Inr \<lparr>func = cls, kwds = [(''task'', PyStr ''image-classification'')]\<rparr>"
proof -
  from initial_timm_table [OF assms(1,2)] obtain cls
    where cls: "model_configs env ''onnx'' ''TimmDefaultOnnxConfig'' = Inr cls"
      and tbl: "TIMM_SUPPORTED_MODEL_TYPE reg =
            [(''default-timm-config'', [(''onnx'', [(''image-classification'',
                 \<lparr>func = cls, kwds = [(''task'', PyStr ''image-classification'')]\<rparr>)])])]"
    by blast
  let ?c = "\<lparr>func = cls, kwds = [(''task'', PyStr ''image-classification'')]\<rparr>"
  have lib: "map_of (LIBRARY_TO_SUPPORTED_MODEL_TYPES reg) ''timm'' = Some (TIMM_SUPPORTED_MODEL_TYPE reg)"
    by (simp add: LIBRARY_TO_SUPPORTED_MODEL_TYPES_def)
  have d: "map_of MODEL_TYPE_FOR_DEFAULT_CONFIG ''timm'' = Some ''default-timm-config''"
    by (simp add: MODEL_TYPE_FOR_DEFAULT_CONFIG_def)
  have norm: "map_of (TIMM_SUPPORTED_MODEL_TYPE reg) (replace ''_'' ''-'' (lower model_type)) = None
      \<or> replace ''_'' ''-'' (lower model_type) = ''default-timm-config''"
    by (simp add: tbl)
  have mapping: "map_of (TIMM_SUPPORTED_MODEL_TYPE reg) ''default-timm-config'' =
      Some [(''onnx'', [(''image-classification'', ?c)])]"
    by (simp add: tbl)
  have mb: "map_of [(''onnx'', [(''image-classification'', ?c)])] ''onnx'' =
      Some [(''image-classification'', ?c)]"
    by simp
  have c: "map_of [(''image-classification'', ?c)] ''image-classification'' = Some ?c"
    by simp
  have "registered reg ''timm'' ''default-timm-config'' ''onnx'' ''image-classification'' = Some ?c"
    by (simp add: registered_existing [OF lib mapping mb])
  with default_model_type_fallback [OF lib d assms(3) norm mapping mb c] cls
  show ?thesis by simp
qed


lemma sample_initial_timm_table:
  "initial_TIMM_SUPPORTED_MODEL_TYPE sample_environment = Inr [(''default-timm-config'', [(''onnx'', [(''image-classification'',
        \<lparr>func = \<lparr>cls_name = ''TimmDefaultOnnxConfig'', SUPPORTS_PAST = False\<rparr>,
         kwds = [(''task'', PyStr ''image-classification'')]\<rparr>)])])]"
  by (simp add: initial_TIMM_SUPPORTED_MODEL_TYPE_def supported_tasks_mapping_def
        is_backend_available_def image_classification_constructor sample_environment_def)

text \<open>
  C5, amended: for a library that declares a default model type (timm, with
  \<^verbatim>\<open>"default-timm-config"\<close>), \<open>get_exporter_config_constructor\<close> with a model type that is
  not a key of the table of the library, and whose normal form (lower case, hyphens for
  underscores) is not a key either unless it is the default model type, and with a task
  that the default entry supports for the exporter, does not raise: it returns the
  constructor of the default model type.
\<close>

theorem default_model_type_substituted:
  assumes "map_of (LIBRARY_TO_SUPPORTED_MODEL_TYPES reg) library_name = Some tbl"
    and "map_of MODEL_TYPE_FOR_DEFAULT_CONFIG library_name = Some default_model_type"
    and "map_of tbl model_type = None"
    and "map_of tbl (replace ''_'' ''-'' (lower model_type)) = None
         \<or> replace ''_'' ''-'' (lower model_type) = default_model_type"
    and "registered reg library_name default_model_type exporter task = Some c"
  shows "get_exporter_config_constructor reg exporter None task (Some model_type) None None
           (Some library_name) = Inr c"
proof -
  from assms(5) obtain tbl' mapping mb
    where tbl': "map_of (LIBRARY_TO_SUPPORTED_MODEL_TYPES reg) library_name = Some tbl'"
      and mapping: "map_of tbl' default_model_type = Some mapping"
      and mb: "map_of mapping exporter = Some mb" and c: "map_of mb task = Some c"
    by (rule registeredE)
  from tbl' assms(1) have "tbl' = tbl" by simp
  with mapping have "map_of tbl default_model_type = Some mapping" by simp
  from default_model_type_fallback [OF assms(1-4) this mb c] show ?thesis .
qed

lemma image_classification_known:
  "replace ''-with-past'' [] ''image-classification'' \<in> set (get_all_tasks sample_environment)"
proof -
  have "torch_available sample_environment" by (simp add: sample_environment_def)
  from torch_task_names [OF this] show ?thesis
    by (simp add: replace_Nil replace_Cons startswith_def)
qed

lemma lower_resnet: "lower ''resnet50'' = ''resnet50''" "lower ''ResNet'' = ''resnet''"
  by code_simp+

lemma normal_resnet:
  "replace ''_'' ''-'' (lower ''resnet50'') = ''resnet50''"
  "replace ''_'' ''-'' (lower ''ResNet'') = ''resnet''"
  by (simp_all add: lower_resnet replace_Nil replace_Cons startswith_def)

theorem default_model_type_substituted_witness:
  "initial_TIMM_SUPPORTED_MODEL_TYPE sample_environment = Inr [(''default-timm-config'', [(''onnx'', [(''image-classification'',
        \<lparr>func = \<lparr>cls_name = ''TimmDefaultOnnxConfig'', SUPPORTS_PAST = False\<rparr>,
         kwds = [(''task'', PyStr ''image-classification'')]\<rparr>)])])]
   \<and> map_of MODEL_TYPE_FOR_DEFAULT_CONFIG ''timm'' = Some ''default-timm-config''
   \<and> map_of [(''default-timm-config'', [(''onnx'', [(''image-classification'',
        \<lparr>func = \<lparr>cls_name = ''TimmDefaultOnnxConfig'', SUPPORTS_PAST = False\<rparr>,
         kwds = [(''task'', PyStr ''image-classification'')]\<rparr>)])])] ''resnet50'' = None
   \<and> map_of [(''default-timm-config'', [(''onnx'', [(''image-classification'',
        \<lparr>func = \<lparr>cls_name = ''TimmDefaultOnnxConfig'', SUPPORTS_PAST = False\<rparr>,
         kwds = [(''task'', PyStr ''image-classification'')]\<rparr>)])])] (replace ''_'' ''-'' (lower ''resnet50'')) = None
   \<and> registered (empty_registry\<lparr>TIMM_SUPPORTED_MODEL_TYPE := [(''default-timm-config'', [(''onnx'', [(''image-classification'',
        \<lparr>func = \<lparr>cls_name = ''TimmDefaultOnnxConfig'', SUPPORTS_PAST = False\<rparr>,
         kwds = [(''task'', PyStr ''image-classification'')]\<rparr>)])])]\<rparr>) ''timm''
        ''default-timm-config'' ''onnx'' ''image-classification'' = Some \<lparr>func = \<lparr>cls_name = ''TimmDefaultOnnxConfig'', SUPPORTS_PAST = False\<rparr>,
              kwds = [(''task'', PyStr ''image-classification'')]\<rparr>
   \<and> get_exporter_config_constructor (empty_registry\<lparr>TIMM_SUPPORTED_MODEL_TYPE := [(''default-timm-config'', [(''onnx'', [(''image-classification'',
        \<lparr>func = \<lparr>cls_name = ''TimmDefaultOnnxConfig'', SUPPORTS_PAST = False\<rparr>,
         kwds = [(''task'', PyStr ''image-classification'')]\<rparr>)])])]\<rparr>)
        ''onnx'' None ''image-classification'' (Some ''resnet50'') None None (Some ''timm'')
      = Inr \<lparr>func = \<lparr>cls_name = ''TimmDefaultOnnxConfig'', SUPPORTS_PAST = False\<rparr>,
              kwds = [(''task'', PyStr ''image-classification'')]\<rparr>"
proof -
  let ?reg = "empty_registry\<lparr>TIMM_SUPPORTED_MODEL_TYPE := [(''default-timm-config'', [(''onnx'', [(''image-classification'',
        \<lparr>func = \<lparr>cls_name = ''TimmDefaultOnnxConfig'', SUPPORTS_PAST = False\<rparr>,
         kwds = [(''task'', PyStr ''image-classification'')]\<rparr>)])])]\<rparr>"
  have h1: "map_of (LIBRARY_TO_SUPPORTED_MODEL_TYPES ?reg) ''timm'' = Some [(''default-timm-config'', [(''onnx'', [(''image-classification'',
        \<lparr>func = \<lparr>cls_name = ''TimmDefaultOnnxConfig'', SUPPORTS_PAST = False\<rparr>,
         kwds = [(''task'', PyStr ''image-classification'')]\<rparr>)])])]"
    by (simp add: LIBRARY_TO_SUPPORTED_MODEL_TYPES_def)
  have h2: "map_of MODEL_TYPE_FOR_DEFAULT_CONFIG ''timm'' = Some ''default-timm-config''"
    by (simp add: MODEL_TYPE_FOR_DEFAULT_CONFIG_def)
  have h3: "map_of [(''default-timm-config'', [(''onnx'', [(''image-classification'',
        \<lparr>func = \<lparr>cls_name = ''TimmDefaultOnnxConfig'', SUPPORTS_PAST = False\<rparr>,
         kwds = [(''task'', PyStr ''image-classification'')]\<rparr>)])])] ''resnet50'' = None"
    by simp
  have h4: "map_of [(''default-timm-config'', [(''onnx'', [(''image-classification'',
        \<lparr>func = \<lparr>cls_name = ''TimmDefaultOnnxConfig'', SUPPORTS_PAST = False\<rparr>,
         kwds = [(''task'', PyStr ''image-classification'')]\<rparr>)])])] (replace ''_'' ''-'' (lower ''resnet50'')) = None"
    by (simp add: normal_resnet)
  have h5: "registered ?reg ''timm'' ''default-timm-config'' ''onnx'' ''image-classification''
      = Some \<lparr>func = \<lparr>cls_name = ''TimmDefaultOnnxConfig'', SUPPORTS_PAST = False\<rparr>,
              kwds = [(''task'', PyStr ''image-classification'')]\<rparr>"
    by (simp add: registered_def LIBRARY_TO_SUPPORTED_MODEL_TYPES_def)
  from default_model_type_substituted [OF h1 h2 h3 disjI1 [OF h4] h5]
    sample_initial_timm_table h2 h3 h4 h5
  show ?thesis by simp
qed

text \<open>
  The claim as stated fails once the table holds a key that is the normal form of the
  model type asked for: after \<^verbatim>\<open>"resnet"\<close> has been registered for the backend \<^verbatim>\<open>"tflite"\<close>
  in the table of timm, \<^verbatim>\<open>"ResNet"\<close> is not a key, the default entry supports the task for
  \<^verbatim>\<open>"onnx"\<close>, and the lookup, which reads the entry of \<^verbatim>\<open>"resnet"\<close>, raises \<^verbatim>\<open>KeyError\<close>.
\<close>

lemma sample_resnet_registration:
  "create_register sample_environment ''tflite'' False ''resnet'' [''image-classification'']
     ''timm'' sample_config_cls (empty_registry\<lparr>TIMM_SUPPORTED_MODEL_TYPE := [(''default-timm-config'', [(''onnx'', [(''image-classification'',
        \<lparr>func = \<lparr>cls_name = ''TimmDefaultOnnxConfig'', SUPPORTS_PAST = False\<rparr>,
         kwds = [(''task'', PyStr ''image-classification'')]\<rparr>)])])]\<rparr>)
   = (None, empty_registry\<lparr>TIMM_SUPPORTED_MODEL_TYPE := [(''default-timm-config'', [(''onnx'', [(''image-classification'',
        \<lparr>func = \<lparr>cls_name = ''TimmDefaultOnnxConfig'', SUPPORTS_PAST = False\<rparr>,
         kwds = [(''task'', PyStr ''image-classification'')]\<rparr>)])]),
      (''resnet'', [(''tflite'', [(''image-classification'',
        \<lparr>func = sample_config_cls, kwds = [(''task'', PyStr ''image-classification'')]\<rparr>)])])]\<rparr>)"
  using image_classification_known
  by (simp add: create_register_def LIBRARY_TO_SUPPORTED_MODEL_TYPES_def empty_registry_def
      store_library_def Let_def image_classification_constructor)

theorem default_not_substituted_counterexample:
  "initial_TIMM_SUPPORTED_MODEL_TYPE sample_environment = Inr [(''default-timm-config'', [(''onnx'', [(''image-classification'',
        \<lparr>func = \<lparr>cls_name = ''TimmDefaultOnnxConfig'', SUPPORTS_PAST = False\<rparr>,
         kwds = [(''task'', PyStr ''image-classification'')]\<rparr>)])])]
   \<and> create_register sample_environment ''tflite'' False ''resnet'' [''image-classification'']
       ''timm'' sample_config_cls (empty_registry\<lparr>TIMM_SUPPORTED_MODEL_TYPE := [(''default-timm-config'', [(''onnx'', [(''image-classification'',
        \<lparr>func = \<lparr>cls_name = ''TimmDefaultOnnxConfig'', SUPPORTS_PAST = False\<rparr>,
         kwds = [(''task'', PyStr ''image-classification'')]\<rparr>)])])]\<rparr>)
     = (None, empty_registry\<lparr>TIMM_SUPPORTED_MODEL_TYPE := [(''default-timm-config'', [(''onnx'', [(''image-classification'',
        \<lparr>func = \<lparr>cls_name = ''TimmDefaultOnnxConfig'', SUPPORTS_PAST = False\<rparr>,
         kwds = [(''task'', PyStr ''image-classification'')]\<rparr>)])]),
      (''resnet'', [(''tflite'', [(''image-classification'',
        \<lparr>func = sample_config_cls, kwds = [(''task'', PyStr ''image-classification'')]\<rparr>)])])]\<rparr>)
   \<and> map_of [(''default-timm-config'', [(''onnx'', [(''image-classification'',
        \<lparr>func = \<lparr>cls_name = ''TimmDefaultOnnxConfig'', SUPPORTS_PAST = False\<rparr>,
         kwds = [(''task'', PyStr ''image-classification'')]\<rparr>)])]),
      (''resnet'', [(''tflite'', [(''image-classification'',
        \<lparr>func = sample_config_cls, kwds = [(''task'', PyStr ''image-classification'')]\<rparr>)])])] ''ResNet'' = None
   \<and> registered (empty_registry\<lparr>TIMM_SUPPORTED_MODEL_TYPE := [(''default-timm-config'', [(''onnx'', [(''image-classification'',
        \<lparr>func = \<lparr>cls_name = ''TimmDefaultOnnxConfig'', SUPPORTS_PAST = False\<rparr>,
         kwds = [(''task'', PyStr ''image-classification'')]\<rparr>)])]),
      (''resnet'', [(''tflite'', [(''image-classification'',
        \<lparr>func = sample_config_cls, kwds = [(''task'', PyStr ''image-classification'')]\<rparr>)])])]\<rparr>) ''timm''
        ''default-timm-config'' ''onnx'' ''image-classification'' = Some \<lparr>func = \<lparr>cls_name = ''TimmDefaultOnnxConfig'', SUPPORTS_PAST = False\<rparr>,
              kwds = [(''task'', PyStr ''image-classification'')]\<rparr>
   \<and> get_exporter_config_constructor (empty_registry\<lparr>TIMM_SUPPORTED_MODEL_TYPE := [(''default-timm-config'', [(''onnx'', [(''image-classification'',
        \<lparr>func = \<lparr>cls_name = ''TimmDefaultOnnxConfig'', SUPPORTS_PAST = False\<rparr>,
         kwds = [(''task'', PyStr ''image-classification'')]\<rparr>)])]),
      (''resnet'', [(''tflite'', [(''image-classification'',
        \<lparr>func = sample_config_cls, kwds = [(''task'', PyStr ''image-classification'')]\<rparr>)])])]\<rparr>)
        ''onnx'' None ''image-classification'' (Some ''ResNet'') None None (Some ''timm'')
      = Inl (KeyError (''resnet is not supported yet with the onnx backend. Only ''
          @ py_list_repr [''tflite'']
          @ '' are supported. If you want to support onnx please propose a PR or open up an issue.''))"
proof -
  let ?reg = "empty_registry\<lparr>TIMM_SUPPORTED_MODEL_TYPE := [(''default-timm-config'', [(''onnx'', [(''image-classification'',
        \<lparr>func = \<lparr>cls_name = ''TimmDefaultOnnxConfig'', SUPPORTS_PAST = False\<rparr>,
         kwds = [(''task'', PyStr ''image-classification'')]\<rparr>)])]),
      (''resnet'', [(''tflite'', [(''image-classification'',
        \<lparr>func = sample_config_cls, kwds = [(''task'', PyStr ''image-classification'')]\<rparr>)])])]\<rparr>"
  have "get_supported_tasks_for_model_type ?reg ''ResNet'' ''onnx'' None (Some ''timm'')
      = Inl (KeyError (''resnet is not supported yet with the onnx backend. Only ''
          @ py_list_repr [''tflite'']
          @ '' are supported. If you want to support onnx please propose a PR or open up an issue.''))"
    by (simp add: get_supported_tasks_for_model_type_def subscript_def Let_def normal_resnet
          LIBRARY_TO_SUPPORTED_MODEL_TYPES_def MODEL_TYPE_FOR_DEFAULT_CONFIG_def)
  then have "get_exporter_config_constructor ?reg
        ''onnx'' None ''image-classification'' (Some ''ResNet'') None None (Some ''timm'')
      = Inl (KeyError (''resnet is not supported yet with the onnx backend. Only ''
          @ py_list_repr [''tflite'']
          @ '' are supported. If you want to support onnx please propose a PR or open up an issue.''))"
    by (simp add: get_exporter_config_constructor_def subscript_def
          LIBRARY_TO_SUPPORTED_MODEL_TYPES_def)
  moreover have "registered ?reg ''timm'' ''default-timm-config'' ''onnx'' ''image-classification''
      = Some \<lparr>func = \<lparr>cls_name = ''TimmDefaultOnnxConfig'', SUPPORTS_PAST = False\<rparr>,
              kwds = [(''task'', PyStr ''image-classification'')]\<rparr>"
    by (simp add: registered_def LIBRARY_TO_SUPPORTED_MODEL_TYPES_def)
  moreover have "map_of [(''default-timm-config'', [(''onnx'', [(''image-classification'',
        \<lparr>func = \<lparr>cls_name = ''TimmDefaultOnnxConfig'', SUPPORTS_PAST = False\<rparr>,
         kwds = [(''task'', PyStr ''image-classification'')]\<rparr>)])]),
      (''resnet'', [(''tflite'', [(''image-classification'',
        \<lparr>func = sample_config_cls, kwds = [(''task'', PyStr ''image-classification'')]\<rparr>)])])] ''ResNet'' = None"
    by simp
  ultimately show ?thesis
    using sample_initial_timm_table sample_resnet_registration by simp
qed

end
